theory Spec2Isabelle
  imports Complex_Main "HOL-Library.Word"
begin

unbundle bit_operations_syntax

section \<open>Heavy-flavour filter helpers: data model\<close>

text \<open>
  The selection helpers of the heavy-flavour trigger (the header \<^verbatim>\<open>HFFilterHelpers.h\<close>, kept
  in \<^verbatim>\<open>PWGEM/PhotonMeson/TableProducer/GammaTableProducer.cxx\<close>) work on selection bitmasks
  of type \<^verbatim>\<open>int8_t\<close>, on \<^verbatim>\<open>float\<close>/\<^verbatim>\<open>double\<close> observables and on ROOT histograms. Bitmasks
  are 8-bit words. Floating-point values are modelled as real numbers: rounding, infinities
  and NaN are outside the model, and every comparison of the source is the same comparison
  on reals. The Dalitz pairing task is \<^verbatim>\<open>PWGDQ/Tasks/DalitzSelection.cxx\<close>.
\<close>

type_synonym int8_t = "8 word"
type_synonym uint8_t = "8 word"

text \<open>
  Modelled from the spec: the macros \<^verbatim>\<open>BIT\<close> and \<^verbatim>\<open>TESTBIT\<close> come from a ROOT header that is
  not among the files at hand. The specification makes a bitmask a small fixed-width
  integer used as a set of independent flags: \<^verbatim>\<open>BIT(n)\<close> is the mask with flag \<open>n\<close> alone
  (\<^verbatim>\<open>1 << n\<close>) and \<^verbatim>\<open>TESTBIT(n, i)\<close> tells whether flag \<open>i\<close> of \<open>n\<close> is set (\<^verbatim>\<open>(n & BIT(i)) != 0\<close>).
  The helpers only ever store \<^verbatim>\<open>BIT(n)\<close> into an \<^verbatim>\<open>int8_t\<close> with \<^verbatim>\<open>|=\<close> and test flags of an
  \<^verbatim>\<open>int8_t\<close>, so both are taken on 8-bit words: a flag position of 8 or more is lost by the
  narrowing store.
\<close>

definition BIT :: "nat \<Rightarrow> int8_t" where
  "BIT n = push_bit n 1"

definition TESTBIT :: "int8_t \<Rightarrow> nat \<Rightarrow> bool" where
  "TESTBIT n i = (n AND BIT i \<noteq> 0)"

subsection \<open>ML score classifier\<close>

text \<open>
  \<^verbatim>\<open>thresholdBDTScores\<close> is a labelled array read at row 0 under the three labels
  \<^verbatim>\<open>BDTbkg\<close>, \<^verbatim>\<open>BDTprompt\<close> and \<^verbatim>\<open>BDTnonprompt\<close>.
\<close>

record BDTThresholds =
  BDTbkg :: real
  BDTprompt :: real
  BDTnonprompt :: real

text \<open>
  \<^verbatim>\<open>isBDTSelected\<close>. The enumerators \<^verbatim>\<open>RecoDecay::OriginType::Prompt\<close> and
  \<^verbatim>\<open>RecoDecay::OriginType::NonPrompt\<close> are declared outside the files at hand; their values
  are the parameters \<open>Prompt\<close> and \<open>NonPrompt\<close>.
\<close>

definition isBDTSelected :: "nat \<Rightarrow> nat \<Rightarrow> real list \<Rightarrow> BDTThresholds \<Rightarrow> int8_t" where
  "isBDTSelected Prompt NonPrompt scores thresholdBDTScores =
     (let retValue = 0 in
      if length scores < 3 then retValue
      else if scores ! 0 > BDTbkg thresholdBDTScores then retValue
      else
        let retValue = (if scores ! 1 > BDTprompt thresholdBDTScores
                        then retValue OR BIT Prompt else retValue);
            retValue = (if scores ! 2 > BDTnonprompt thresholdBDTScores
                        then retValue OR BIT NonPrompt else retValue)
        in retValue)"

text \<open>
  \<^verbatim>\<open>PredictONNX\<close> initialises its result to \<^verbatim>\<open>{-1., 2., 2.}\<close> and returns it unchanged when
  the inference runtime throws.
\<close>

definition failureSentinel :: "real list" where
  "failureSentinel = [-1, 2, 2]"

subsection \<open>Tracks, PID species and calibration histograms\<close>

text \<open>
  The columns of a track that the helpers read. \<^verbatim>\<open>isGlobalTrack\<close> is a \<^verbatim>\<open>uint8_t\<close> flag;
  \<^verbatim>\<open>tpcNClsFound\<close> is an integer count that the source converts to \<^verbatim>\<open>Double_t\<close> when it
  looks up its bin. The total momentum \<^verbatim>\<open>p()\<close> is the field \<open>pTrack\<close>.
\<close>

record Track =
  pt :: real
  eta :: real
  pTrack :: real
  px :: real
  py :: real
  pz :: real
  isGlobalTrack :: uint8_t
  hasTOF :: bool
  tpcNClsFound :: real
  tpcInnerParam :: real
  tpcNSigmaPr :: real
  tofNSigmaPr :: real
  tpcNSigmaKa :: real
  tofNSigmaKa :: real
  tpcNSigmaPi :: real
  tofNSigmaPi :: real

text \<open>\<^verbatim>\<open>enum PIDSpecies { kEl = 0, kKa, kPi, kPr }\<close>, passed around as \<^verbatim>\<open>int\<close>.\<close>

definition kEl :: int where "kEl = 0"
definition kKa :: int where "kKa = 1"
definition kPi :: int where "kPi = 2"
definition kPr :: int where "kPr = 3"

text \<open>
  The calibration tables are ROOT histograms (\<^verbatim>\<open>TH3F\<close>), library objects that the helpers
  use through four methods only: the three axes, \<^verbatim>\<open>GetNbins\<close> and \<^verbatim>\<open>FindBin\<close> of an axis,
  and \<^verbatim>\<open>GetBinContent\<close> at a triple of bin numbers. These methods are the fields of the
  records below.
\<close>

record TAxis =
  GetNbins :: int
  FindBin :: "real \<Rightarrow> int"

record TH3F =
  GetXaxis :: TAxis
  GetYaxis :: TAxis
  GetZaxis :: TAxis
  GetBinContent :: "int \<Rightarrow> int \<Rightarrow> int \<Rightarrow> real"

text \<open>
  ROOT's contract for an axis with \<open>N\<close> bins: there is at least one bin, and \<^verbatim>\<open>FindBin\<close>
  returns 0 (underflow), a bin number from 1 to \<open>N\<close>, or \<open>N + 1\<close> (overflow).
\<close>

definition axisOK :: "TAxis \<Rightarrow> bool" where
  "axisOK ax \<longleftrightarrow>
     1 \<le> GetNbins ax \<and> (\<forall>x. 0 \<le> FindBin ax x \<and> FindBin ax x \<le> GetNbins ax + 1)"

text \<open>
  An axis with \<open>n\<close> bins of equal width on \<open>[lo, hi)\<close>, with the bin lookup of ROOT's
  \<^verbatim>\<open>TAxis::FindFixBin\<close>: underflow below \<open>lo\<close>, overflow from \<open>hi\<close> on.
\<close>

definition fixedAxis :: "int \<Rightarrow> real \<Rightarrow> real \<Rightarrow> TAxis" where
  "fixedAxis n lo hi =
     \<lparr>GetNbins = n,
      FindBin = (\<lambda>x. if x < lo then 0
                      else if \<not> x < hi then n + 1
                      else 1 + \<lfloor>real_of_int n * (x - lo) / (hi - lo)\<rfloor>)\<rparr>"

text \<open>\<^verbatim>\<open>LOG(fatal)\<close> ends the process; it is the only failure of the helpers.\<close>

datatype error = FatalWrongPIDSpecies

text \<open>
  \<^verbatim>\<open>getTPCPostCalib\<close>: the post-calibrated TPC deviation of a track for a species. The
  quotient is the quotient of the reals. The calibration tables of the data model hold
  strictly positive widths; a width of 0, for which the floating-point quotient of the
  source is infinite or NaN, is outside the model.
\<close>

definition getTPCPostCalib :: "TH3F \<Rightarrow> TH3F \<Rightarrow> Track \<Rightarrow> int \<Rightarrow> error + real" where
  "getTPCPostCalib hCalibMean hCalibSigma track pidSpecies =
     (let tpcNCls = tpcNClsFound track;
          tpcPin = tpcInnerParam track;
          etaTrack = eta track
      in case (if pidSpecies = kKa then Inr (tpcNSigmaKa track)
               else if pidSpecies = kPi then Inr (tpcNSigmaPi track)
               else if pidSpecies = kPr then Inr (tpcNSigmaPr track)
               else Inl FatalWrongPIDSpecies) of
           Inl e \<Rightarrow> Inl e
         | Inr tpcNSigma \<Rightarrow>
             let binTPCNCls = FindBin (GetXaxis hCalibMean) tpcNCls;
                 binTPCNCls = (if binTPCNCls = 0 then 1 else binTPCNCls);
                 binTPCNCls = min (GetNbins (GetXaxis hCalibMean)) binTPCNCls;
                 binPin = FindBin (GetYaxis hCalibMean) tpcPin;
                 binPin = (if binPin = 0 then 1 else binPin);
                 binPin = min (GetNbins (GetYaxis hCalibMean)) binPin;
                 binEta = FindBin (GetZaxis hCalibMean) etaTrack;
                 binEta = (if binEta = 0 then 1 else binEta);
                 binEta = min (GetNbins (GetZaxis hCalibMean)) binEta;
                 mean = GetBinContent hCalibMean binTPCNCls binPin binEta;
                 width = GetBinContent hCalibSigma binTPCNCls binPin binEta
             in Inr ((tpcNSigma - mean) / width))"

subsection \<open>QA histograms\<close>

text \<open>
  A QA histogram is written, never read, by the helpers: it is the list of the points
  filled so far, and \<^verbatim>\<open>Fill\<close> appends one.
\<close>

type_synonym TH1 = "real list"
type_synonym TH2 = "(real \<times> real) list"

definition Fill1 :: "TH1 \<Rightarrow> real \<Rightarrow> TH1" where
  "Fill1 h x = h @ [x]"

definition Fill2 :: "TH2 \<Rightarrow> real \<Rightarrow> real \<Rightarrow> TH2" where
  "Fill2 h x y = h @ [(x, y)]"

subsection \<open>Single-track classifiers\<close>

text \<open>
  \<^verbatim>\<open>isSelectedProton4Femto\<close>; the result carries the two QA histograms as left behind. The
  flag \<^verbatim>\<open>isGlobalTrack\<close> is compared with \<^verbatim>\<open>(uint8_t) true\<close>, which is 1.
\<close>

definition isSelectedProton4Femto ::
  "Track \<Rightarrow> real \<Rightarrow> real \<Rightarrow> bool \<Rightarrow> bool \<Rightarrow> TH3F \<Rightarrow> TH3F \<Rightarrow> int \<Rightarrow> TH2 \<Rightarrow> TH2
     \<Rightarrow> error + (bool \<times> TH2 \<times> TH2)" where
  "isSelectedProton4Femto track femtoMinProtonPt femtoMaxNsigmaProton femtoProtonOnlyTOF
       computeTPCPostCalib hMapProtonMean hMapProtonSigma activateQA hProtonTPCPID hProtonTOFPID =
     (if pt track < femtoMinProtonPt then Inr (False, hProtonTPCPID, hProtonTOFPID)
      else if \<bar>eta track\<bar> > 8 / 10 then Inr (False, hProtonTPCPID, hProtonTOFPID)
      else if isGlobalTrack track \<noteq> 1 then Inr (False, hProtonTPCPID, hProtonTOFPID)
      else
        let NSigmaTPC = tpcNSigmaPr track;
            NSigmaTOF = tofNSigmaPr track
        in case (if computeTPCPostCalib
                 then getTPCPostCalib hMapProtonMean hMapProtonSigma track kPr
                 else Inr NSigmaTPC) of
             Inl e \<Rightarrow> Inl e
           | Inr NSigmaTPC \<Rightarrow>
               let NSigma = (if femtoProtonOnlyTOF then \<bar>NSigmaTOF\<bar>
                             else sqrt (NSigmaTPC * NSigmaTPC + NSigmaTOF * NSigmaTOF))
               in if NSigma > femtoMaxNsigmaProton
                  then Inr (False, hProtonTPCPID, hProtonTOFPID)
                  else if activateQA > 1
                  then Inr (True, Fill2 hProtonTPCPID (pTrack track) NSigmaTPC,
                                  Fill2 hProtonTOFPID (pTrack track) NSigmaTOF)
                  else Inr (True, hProtonTPCPID, hProtonTOFPID))"

text \<open>\<^verbatim>\<open>isSelectedProton4CharmBaryons\<close>.\<close>

definition isSelectedProton4CharmBaryons ::
  "Track \<Rightarrow> real \<Rightarrow> real \<Rightarrow> bool \<Rightarrow> TH3F \<Rightarrow> TH3F \<Rightarrow> error + bool" where
  "isSelectedProton4CharmBaryons track nsigmaTPCProtonLc nsigmaTOFProtonLc computeTPCPostCalib
       hMapProtonMean hMapProtonSigma =
     (let NSigmaTPC = tpcNSigmaPr track;
          NSigmaTOF = tofNSigmaPr track
      in case (if computeTPCPostCalib
               then getTPCPostCalib hMapProtonMean hMapProtonSigma track kPr
               else Inr NSigmaTPC) of
           Inl e \<Rightarrow> Inl e
         | Inr NSigmaTPC \<Rightarrow>
             if \<bar>NSigmaTPC\<bar> > nsigmaTPCProtonLc then Inr False
             else if hasTOF track \<and> \<bar>NSigmaTOF\<bar> > nsigmaTOFProtonLc then Inr False
             else Inr True)"

text \<open>
  \<^verbatim>\<open>isSelectedKaon4Charm3Prong\<close>. Its callers pass the pion calibration maps, which
  \<^verbatim>\<open>getTPCPostCalib\<close> then applies to the kaon deviation.
\<close>

definition isSelectedKaon4Charm3Prong ::
  "Track \<Rightarrow> real \<Rightarrow> real \<Rightarrow> bool \<Rightarrow> TH3F \<Rightarrow> TH3F \<Rightarrow> error + bool" where
  "isSelectedKaon4Charm3Prong track nsigmaTPCKaon3Prong nsigmaTOFKaon3Prong computeTPCPostCalib
       hMapPionMean hMapPionSigma =
     (let NSigmaTPC = tpcNSigmaKa track;
          NSigmaTOF = tofNSigmaKa track
      in case (if computeTPCPostCalib
               then getTPCPostCalib hMapPionMean hMapPionSigma track kKa
               else Inr NSigmaTPC) of
           Inl e \<Rightarrow> Inl e
         | Inr NSigmaTPC \<Rightarrow>
             if \<bar>NSigmaTPC\<bar> > nsigmaTPCKaon3Prong then Inr False
             else if hasTOF track \<and> \<bar>NSigmaTOF\<bar> > nsigmaTOFKaon3Prong then Inr False
             else Inr True)"

subsection \<open>Independent-candidate counter\<close>

text \<open>
  \<^verbatim>\<open>computeNumberOfCandidates\<close>. The two innermost loops compare every daughter index of
  the first candidate with every daughter index of the second; a match sets \<^verbatim>\<open>hasOverlap\<close>
  and breaks out of the innermost loop only.
\<close>

fun overlapSecond :: "'a \<Rightarrow> 'a list \<Rightarrow> bool \<Rightarrow> bool" where
  "overlapSecond idxFirst [] hasOverlap = hasOverlap"
| "overlapSecond idxFirst (idxSecond # rest) hasOverlap =
     (if idxFirst = idxSecond then True else overlapSecond idxFirst rest hasOverlap)"

fun overlapFirst :: "'a list \<Rightarrow> 'a list \<Rightarrow> bool \<Rightarrow> bool" where
  "overlapFirst [] second hasOverlap = hasOverlap"
| "overlapFirst (idxFirst # rest) second hasOverlap =
     overlapFirst rest second (overlapSecond idxFirst second hasOverlap)"

text \<open>The loop over \<^verbatim>\<open>iCandSecond\<close> for one \<^verbatim>\<open>iCand\<close>, counting in an \<^verbatim>\<open>int\<close>.\<close>

definition nIndependentOf :: "'a list list \<Rightarrow> nat \<Rightarrow> int" where
  "nIndependentOf indices iCand =
     fold (\<lambda>iCandSecond nIndependent.
             if iCand = iCandSecond then nIndependent
             else if \<not> overlapFirst (indices ! iCand) (indices ! iCandSecond) False
                  then nIndependent + 1 else nIndependent)
          [0..<length indices] 0"

definition computeNumberOfCandidates :: "'a list list \<Rightarrow> int" where
  "computeNumberOfCandidates indices =
     (if length indices < 2 then int (length indices)
      else
        let numIndependentCand = map (nIndependentOf indices) [0..<length indices];
            numIndependentCand = sort numIndependentCand
        in if last numIndependentCand = 0 then last numIndependentCand else 2)"

subsection \<open>Invariant-mass window taggers\<close>

text \<open>
  The PDG masses (\<^verbatim>\<open>RecoDecay::getMassPDG\<close>) and the invariant mass of a list of momenta
  under a list of mass hypotheses (\<^verbatim>\<open>RecoDecay::m\<close>) are declared outside the files at
  hand. The masses are the fields of a record and the invariant mass is the parameter \<open>m\<close>
  of every tagger, which is therefore generic in the type of a momentum.
\<close>

record PDGMasses =
  massPi :: real
  massK :: real
  massProton :: real
  massPhi :: real
  massD0 :: real
  massDPlus :: real
  massDs :: real
  massLc :: real
  massXic :: real

text \<open>
  Each tagger returns its bitmask together with the QA histogram as it leaves it.
  \<^verbatim>\<open>activateQA\<close> is an \<^verbatim>\<open>int\<close> used as a condition: any value but 0 switches the filling on.
\<close>

definition isSelectedD0InMassRange ::
  "('p list \<Rightarrow> real list \<Rightarrow> real) \<Rightarrow> PDGMasses \<Rightarrow> 'p \<Rightarrow> 'p \<Rightarrow> real \<Rightarrow> int8_t \<Rightarrow> real \<Rightarrow> int
     \<Rightarrow> TH2 \<Rightarrow> int8_t \<times> TH2" where
  "isSelectedD0InMassRange m pdg pTrackPos pTrackNeg ptD isSelected
       deltaMassCharmHadronForBeauty activateQA hMassVsPt =
     (let retValue = 0;
          (retValue, hMassVsPt) =
            (if TESTBIT isSelected 0 then
               let invMassD0 = m [pTrackPos, pTrackNeg] [massPi pdg, massK pdg];
                   hMassVsPt = (if activateQA \<noteq> 0 then Fill2 hMassVsPt ptD invMassD0
                                else hMassVsPt);
                   retValue = (if \<bar>invMassD0 - massD0 pdg\<bar> < deltaMassCharmHadronForBeauty
                               then retValue OR BIT 0 else retValue)
               in (retValue, hMassVsPt)
             else (retValue, hMassVsPt));
          (retValue, hMassVsPt) =
            (if TESTBIT isSelected 1 then
               let invMassD0bar = m [pTrackPos, pTrackNeg] [massK pdg, massPi pdg];
                   hMassVsPt = (if activateQA \<noteq> 0 then Fill2 hMassVsPt ptD invMassD0bar
                                else hMassVsPt);
                   retValue = (if \<bar>invMassD0bar - massD0 pdg\<bar> < deltaMassCharmHadronForBeauty
                               then retValue OR BIT 1 else retValue)
               in (retValue, hMassVsPt)
             else (retValue, hMassVsPt))
      in (retValue, hMassVsPt))"

definition isSelectedDplusInMassRange ::
  "('p list \<Rightarrow> real list \<Rightarrow> real) \<Rightarrow> PDGMasses \<Rightarrow> 'p \<Rightarrow> 'p \<Rightarrow> 'p \<Rightarrow> real \<Rightarrow> real \<Rightarrow> int
     \<Rightarrow> TH2 \<Rightarrow> int8_t \<times> TH2" where
  "isSelectedDplusInMassRange m pdg pTrackSameChargeFirst pTrackSameChargeSecond
       pTrackOppositeCharge ptD deltaMassCharmHadronForBeauty activateQA hMassVsPt =
     (let invMassDplus = m [pTrackSameChargeFirst, pTrackSameChargeSecond, pTrackOppositeCharge]
                           [massPi pdg, massPi pdg, massK pdg];
          hMassVsPt = (if activateQA \<noteq> 0 then Fill2 hMassVsPt ptD invMassDplus else hMassVsPt)
      in if \<bar>invMassDplus - massDPlus pdg\<bar> > deltaMassCharmHadronForBeauty
         then (0, hMassVsPt)
         else (BIT 0, hMassVsPt))"

definition isSelectedDsInMassRange ::
  "('p list \<Rightarrow> real list \<Rightarrow> real) \<Rightarrow> PDGMasses \<Rightarrow> 'p \<Rightarrow> 'p \<Rightarrow> 'p \<Rightarrow> real \<Rightarrow> int8_t \<Rightarrow> real
     \<Rightarrow> int \<Rightarrow> TH2 \<Rightarrow> int8_t \<times> TH2" where
  "isSelectedDsInMassRange m pdg pTrackSameChargeFirst pTrackSameChargeSecond
       pTrackOppositeCharge ptD isSelected deltaMassCharmHadronForBeauty activateQA hMassVsPt =
     (let retValue = 0;
          (retValue, hMassVsPt) =
            (if TESTBIT isSelected 0 then
               let invMassDsToKKPi =
                     m [pTrackSameChargeFirst, pTrackOppositeCharge, pTrackSameChargeSecond]
                       [massK pdg, massK pdg, massPi pdg];
                   hMassVsPt = (if activateQA \<noteq> 0 then Fill2 hMassVsPt ptD invMassDsToKKPi
                                else hMassVsPt);
                   retValue = (if \<bar>invMassDsToKKPi - massDs pdg\<bar> < deltaMassCharmHadronForBeauty
                               then retValue OR BIT 0 else retValue)
               in (retValue, hMassVsPt)
             else (retValue, hMassVsPt));
          (retValue, hMassVsPt) =
            (if TESTBIT isSelected 1 then
               let invMassDsToPiKK =
                     m [pTrackSameChargeFirst, pTrackOppositeCharge, pTrackSameChargeSecond]
                       [massPi pdg, massK pdg, massK pdg];
                   hMassVsPt = (if activateQA \<noteq> 0 then Fill2 hMassVsPt ptD invMassDsToPiKK
                                else hMassVsPt);
                   retValue = (if \<bar>invMassDsToPiKK - massDs pdg\<bar> < deltaMassCharmHadronForBeauty
                               then retValue OR BIT 1 else retValue)
               in (retValue, hMassVsPt)
             else (retValue, hMassVsPt))
      in (retValue, hMassVsPt))"

definition isSelectedLcInMassRange ::
  "('p list \<Rightarrow> real list \<Rightarrow> real) \<Rightarrow> PDGMasses \<Rightarrow> 'p \<Rightarrow> 'p \<Rightarrow> 'p \<Rightarrow> real \<Rightarrow> int8_t \<Rightarrow> real
     \<Rightarrow> int \<Rightarrow> TH2 \<Rightarrow> int8_t \<times> TH2" where
  "isSelectedLcInMassRange m pdg pTrackSameChargeFirst pTrackSameChargeSecond
       pTrackOppositeCharge ptLc isSelected deltaMassCharmHadronForBeauty activateQA hMassVsPt =
     (let retValue = 0;
          (retValue, hMassVsPt) =
            (if TESTBIT isSelected 0 then
               let invMassLcToPKPi =
                     m [pTrackSameChargeFirst, pTrackOppositeCharge, pTrackSameChargeSecond]
                       [massProton pdg, massK pdg, massPi pdg];
                   hMassVsPt = (if activateQA \<noteq> 0 then Fill2 hMassVsPt ptLc invMassLcToPKPi
                                else hMassVsPt);
                   retValue = (if \<bar>invMassLcToPKPi - massLc pdg\<bar> < deltaMassCharmHadronForBeauty
                               then retValue OR BIT 0 else retValue)
               in (retValue, hMassVsPt)
             else (retValue, hMassVsPt));
          (retValue, hMassVsPt) =
            (if TESTBIT isSelected 1 then
               let invMassLcToPiKP =
                     m [pTrackSameChargeFirst, pTrackOppositeCharge, pTrackSameChargeSecond]
                       [massPi pdg, massK pdg, massProton pdg];
                   hMassVsPt = (if activateQA \<noteq> 0 then Fill2 hMassVsPt ptLc invMassLcToPiKP
                                else hMassVsPt);
                   retValue = (if \<bar>invMassLcToPiKP - massLc pdg\<bar> < deltaMassCharmHadronForBeauty
                               then retValue OR BIT 1 else retValue)
               in (retValue, hMassVsPt)
             else (retValue, hMassVsPt))
      in (retValue, hMassVsPt))"

definition isSelectedXicInMassRange ::
  "('p list \<Rightarrow> real list \<Rightarrow> real) \<Rightarrow> PDGMasses \<Rightarrow> 'p \<Rightarrow> 'p \<Rightarrow> 'p \<Rightarrow> real \<Rightarrow> int8_t \<Rightarrow> real
     \<Rightarrow> int \<Rightarrow> TH2 \<Rightarrow> int8_t \<times> TH2" where
  "isSelectedXicInMassRange m pdg pTrackSameChargeFirst pTrackSameChargeSecond
       pTrackOppositeCharge ptXic isSelected deltaMassCharmHadronForBeauty activateQA hMassVsPt =
     (let retValue = 0;
          (retValue, hMassVsPt) =
            (if TESTBIT isSelected 0 then
               let invMassXicToPKPi =
                     m [pTrackSameChargeFirst, pTrackOppositeCharge, pTrackSameChargeSecond]
                       [massProton pdg, massK pdg, massPi pdg];
                   hMassVsPt = (if activateQA \<noteq> 0 then Fill2 hMassVsPt ptXic invMassXicToPKPi
                                else hMassVsPt);
                   retValue = (if \<bar>invMassXicToPKPi - massXic pdg\<bar> < deltaMassCharmHadronForBeauty
                               then retValue OR BIT 0 else retValue)
               in (retValue, hMassVsPt)
             else (retValue, hMassVsPt));
          (retValue, hMassVsPt) =
            (if TESTBIT isSelected 1 then
               let invMassXicToPiKP =
                     m [pTrackSameChargeFirst, pTrackOppositeCharge, pTrackSameChargeSecond]
                       [massPi pdg, massK pdg, massProton pdg];
                   hMassVsPt = (if activateQA \<noteq> 0 then Fill2 hMassVsPt ptXic invMassXicToPiKP
                                else hMassVsPt);
                   retValue = (if \<bar>invMassXicToPiKP - massXic pdg\<bar> < deltaMassCharmHadronForBeauty
                               then retValue OR BIT 1 else retValue)
               in (retValue, hMassVsPt)
             else (retValue, hMassVsPt))
      in (retValue, hMassVsPt))"

subsection \<open>Photon-conversion candidates\<close>

text \<open>
  The columns of a photon candidate that \<^verbatim>\<open>isSelectedGamma\<close> reads; its pseudorapidity
  \<^verbatim>\<open>eta()\<close> is the field \<open>etaGamma\<close>.
\<close>

record Gamma =
  etaGamma :: real
  v0radius :: real
  alpha :: real
  qtarm :: real
  psipair :: real

text \<open>
  \<^verbatim>\<open>isSelectedGamma\<close>; the result carries the five QA histograms in the order of the
  parameters.
\<close>

definition isSelectedGamma ::
  "Gamma \<Rightarrow> real \<Rightarrow> int \<Rightarrow> TH1 \<Rightarrow> TH1 \<Rightarrow> TH1 \<Rightarrow> TH2 \<Rightarrow> TH2
     \<Rightarrow> bool \<times> TH1 \<times> TH1 \<times> TH1 \<times> TH2 \<times> TH2" where
  "isSelectedGamma gamma gammaCosinePA activateQA hGammaSelected hGammaEtaBefore hGammaEtaAfter
       hGammaArmPodBefore hGammaArmPodAfter =
     (let (hGammaSelected, hGammaEtaBefore, hGammaArmPodBefore) =
            (if activateQA > 1
             then (Fill1 hGammaSelected 0, Fill1 hGammaEtaBefore (etaGamma gamma),
                   Fill2 hGammaArmPodBefore (alpha gamma) (qtarm gamma))
             else (hGammaSelected, hGammaEtaBefore, hGammaArmPodBefore))
      in if \<bar>etaGamma gamma\<bar> > 8 / 10 then
           (False, (if activateQA > 1 then Fill1 hGammaSelected 1 else hGammaSelected),
            hGammaEtaBefore, hGammaEtaAfter, hGammaArmPodBefore, hGammaArmPodAfter)
         else if v0radius gamma < 0 \<or> v0radius gamma > 180 then
           (False, (if activateQA > 1 then Fill1 hGammaSelected 2 else hGammaSelected),
            hGammaEtaBefore, hGammaEtaAfter, hGammaArmPodBefore, hGammaArmPodAfter)
         else if (alpha gamma / (95 / 100)) ^ 2 + (qtarm gamma / (5 / 100)) ^ 2 \<ge> 1 then
           (False, (if activateQA > 1 then Fill1 hGammaSelected 3 else hGammaSelected),
            hGammaEtaBefore, hGammaEtaAfter, hGammaArmPodBefore, hGammaArmPodAfter)
         else if \<bar>psipair gamma\<bar> > 1 / 10 then
           (False, (if activateQA > 1 then Fill1 hGammaSelected 4 else hGammaSelected),
            hGammaEtaBefore, hGammaEtaAfter, hGammaArmPodBefore, hGammaArmPodAfter)
         else if gammaCosinePA < 85 / 100 then
           (False, (if activateQA > 1 then Fill1 hGammaSelected 5 else hGammaSelected),
            hGammaEtaBefore, hGammaEtaAfter, hGammaArmPodBefore, hGammaArmPodAfter)
         else if activateQA > 1 then
           (True, Fill1 hGammaSelected 6, hGammaEtaBefore, Fill1 hGammaEtaAfter (etaGamma gamma),
            hGammaArmPodBefore, Fill2 hGammaArmPodAfter (alpha gamma) (qtarm gamma))
         else
           (True, hGammaSelected, hGammaEtaBefore, hGammaEtaAfter, hGammaArmPodBefore,
            hGammaArmPodAfter))"

subsection \<open>Dalitz electron pairing\<close>

text \<open>
  The task \<^verbatim>\<open>dalitzPairing\<close> (\<^verbatim>\<open>DalitzSelection.cxx\<close>). Of a barrel track it reads the row
  number \<^verbatim>\<open>globalIndex\<close>, the collision it belongs to and its charge sign; all other
  columns are read by the variable manager only, and stay in the extension of the record.
\<close>

record BarrelTrack =
  globalIndex :: int
  collisionId :: int
  sign :: int

record Collision =
  collisionGlobalIndex :: int

text \<open>
  The variable manager and the cut classes are declared outside the files at hand. The
  static array \<^verbatim>\<open>VarManager::fgValues\<close> is a value of an arbitrary type \<open>'vals\<close>, the
  \<^verbatim>\<open>Fill\<close> functions that write into it are parameters, and a cut is the predicate that
  \<^verbatim>\<open>IsSelected\<close> evaluates on it. The configuration of the task is fixed by \<^verbatim>\<open>init\<close>.
\<close>

record ('trk, 'evt, 'vals) dalitzConfig =
  fEventCut :: "'vals \<Rightarrow> bool"
  fTrackCuts :: "('vals \<Rightarrow> bool) list"
  fPairCuts :: "('vals \<Rightarrow> bool) list"
  fQA :: bool
  ResetValues :: "'vals \<Rightarrow> 'vals"
  FillEvent :: "'evt \<Rightarrow> 'vals \<Rightarrow> 'vals"
  FillTrack :: "'trk \<Rightarrow> 'vals \<Rightarrow> 'vals"
  FillPair :: "'trk \<Rightarrow> 'trk \<Rightarrow> 'vals \<Rightarrow> 'vals"

text \<open>
  The mutable state. The two \<^verbatim>\<open>std::map<int, uint8_t>\<close> are only ever accessed with
  \<^verbatim>\<open>operator[]\<close>, which yields 0 for an absent key, and with \<^verbatim>\<open>clear\<close>: they are total
  functions, everywhere 0 when cleared. The histogram manager and the statistics
  histogram are written only; they are the lists of their fills, a histogram class being
  identified by its kind and the index of its cut.
\<close>

datatype HistClass = PairClass nat | TrackBarrelClass nat

record 'vals dalitzPairing =
  fTrackmap :: "int \<Rightarrow> uint8_t"
  fDalitzmap :: "int \<Rightarrow> uint8_t"
  fgValues :: 'vals
  fHistMan :: "(HistClass \<times> 'vals) list"
  fStatsList :: "nat list"

text \<open>
  \<^verbatim>\<open>runTrackSelection\<close>. \<^verbatim>\<open>uint8_t(1) << i\<close> is computed as an \<^verbatim>\<open>int\<close> and narrowed by the
  store into the \<^verbatim>\<open>uint8_t\<close>, which is the shift on 8-bit words for fewer than 32 cuts.
\<close>

primrec trackCutLoop :: "('vals \<Rightarrow> bool) list \<Rightarrow> nat \<Rightarrow> 'vals \<Rightarrow> uint8_t \<Rightarrow> uint8_t" where
  "trackCutLoop [] i vals filterMap = filterMap"
| "trackCutLoop (trackCut # rest) i vals filterMap =
     trackCutLoop rest (i + 1) vals
       (if trackCut vals then filterMap OR push_bit i 1 else filterMap)"

definition trackSelectionStep ::
  "('a BarrelTrack_scheme, 'evt, 'vals) dalitzConfig \<Rightarrow> 'a BarrelTrack_scheme
     \<Rightarrow> 'vals dalitzPairing \<Rightarrow> 'vals dalitzPairing" where
  "trackSelectionStep cfg track st =
     (let filterMap = 0;
          st = st\<lparr>fgValues := FillTrack cfg track (fgValues st)\<rparr>;
          filterMap = trackCutLoop (fTrackCuts cfg) 0 (fgValues st) filterMap
      in if filterMap \<noteq> 0
         then st\<lparr>fTrackmap := (fTrackmap st)(globalIndex track := filterMap)\<rparr>
         else st)"

definition runTrackSelection ::
  "('a BarrelTrack_scheme, 'evt, 'vals) dalitzConfig \<Rightarrow> 'a BarrelTrack_scheme list
     \<Rightarrow> 'vals dalitzPairing \<Rightarrow> 'vals dalitzPairing" where
  "runTrackSelection cfg tracksBarrel st = fold (trackSelectionStep cfg) tracksBarrel st"

text \<open>
  \<^verbatim>\<open>runDalitzPairing\<close>. The pairs come from \<^verbatim>\<open>CombinationsStrictlyUpperIndexPolicy\<close> on the
  same table twice (the only call passes the same grouped tracks for both arguments):
  every pair of rows with the first strictly before the second.
\<close>

fun combinationsStrictlyUpper :: "'a list \<Rightarrow> ('a \<times> 'a) list" where
  "combinationsStrictlyUpper [] = []"
| "combinationsStrictlyUpper (x # xs) = map (Pair x) xs @ combinationsStrictlyUpper xs"

primrec pairCutLoop ::
  "('a BarrelTrack_scheme, 'evt, 'vals) dalitzConfig \<Rightarrow> 'a BarrelTrack_scheme
     \<Rightarrow> 'a BarrelTrack_scheme \<Rightarrow> uint8_t \<Rightarrow> ('vals \<Rightarrow> bool) list \<Rightarrow> nat
     \<Rightarrow> 'vals dalitzPairing \<Rightarrow> 'vals dalitzPairing" where
  "pairCutLoop cfg track1 track2 twoTracksFilterMap [] icut st = st"
| "pairCutLoop cfg track1 track2 twoTracksFilterMap (pairCut # rest) icut st =
     pairCutLoop cfg track1 track2 twoTracksFilterMap rest (icut + 1)
       (if twoTracksFilterMap AND push_bit icut 1 = 0 then st
        else if pairCut (fgValues st) then
          let st = st\<lparr>fDalitzmap := (fDalitzmap st)
                      (globalIndex track1 := fDalitzmap st (globalIndex track1) OR push_bit icut 1)\<rparr>;
              st = st\<lparr>fDalitzmap := (fDalitzmap st)
                      (globalIndex track2 := fDalitzmap st (globalIndex track2) OR push_bit icut 1)\<rparr>
          in if fQA cfg then st\<lparr>fHistMan := fHistMan st @ [(PairClass icut, fgValues st)]\<rparr>
             else st
        else st)"

definition pairStep ::
  "('a BarrelTrack_scheme, 'evt, 'vals) dalitzConfig
     \<Rightarrow> 'a BarrelTrack_scheme \<times> 'a BarrelTrack_scheme
     \<Rightarrow> 'vals dalitzPairing \<Rightarrow> 'vals dalitzPairing" where
  "pairStep cfg pair st =
     (let track1 = fst pair; track2 = snd pair
      in if sign track1 * sign track2 > 0 then st
         else
           let twoTracksFilterMap =
                 fTrackmap st (globalIndex track1) AND fTrackmap st (globalIndex track2)
           in if twoTracksFilterMap = 0 then st
              else
                let st = st\<lparr>fgValues := FillPair cfg track1 track2 (fgValues st)\<rparr>
                in pairCutLoop cfg track1 track2 twoTracksFilterMap (fPairCuts cfg) 0 st)"

primrec qaCutLoop ::
  "uint8_t \<Rightarrow> ('vals \<Rightarrow> bool) list \<Rightarrow> nat \<Rightarrow> 'vals dalitzPairing \<Rightarrow> 'vals dalitzPairing" where
  "qaCutLoop filterMap [] icut st = st"
| "qaCutLoop filterMap (pairCut # rest) icut st =
     qaCutLoop filterMap rest (icut + 1)
       (if filterMap AND push_bit icut 1 \<noteq> 0
        then st\<lparr>fStatsList := fStatsList st @ [icut],
                fHistMan := fHistMan st @ [(TrackBarrelClass icut, fgValues st)]\<rparr>
        else st)"

definition qaTrackStep ::
  "('a BarrelTrack_scheme, 'evt, 'vals) dalitzConfig \<Rightarrow> 'a BarrelTrack_scheme
     \<Rightarrow> 'vals dalitzPairing \<Rightarrow> 'vals dalitzPairing" where
  "qaTrackStep cfg track st =
     (let filterMap = fDalitzmap st (globalIndex track)
      in if filterMap = 0 then st
         else
           let st = st\<lparr>fgValues := FillTrack cfg track (fgValues st)\<rparr>
           in qaCutLoop filterMap (fPairCuts cfg) 0 st)"

definition runDalitzPairing ::
  "('a BarrelTrack_scheme, 'evt, 'vals) dalitzConfig \<Rightarrow> 'a BarrelTrack_scheme list
     \<Rightarrow> 'vals dalitzPairing \<Rightarrow> 'vals dalitzPairing" where
  "runDalitzPairing cfg tracks1 st =
     (let st = fold (pairStep cfg) (combinationsStrictlyUpper tracks1) st
      in if fQA cfg then fold (qaTrackStep cfg) tracks1 st else st)"

text \<open>
  \<^verbatim>\<open>processFullTracks\<close>: the body of the loop over the collisions, then the whole function,
  which returns the column of Dalitz bits, one entry per track of the unfiltered table.
  \<^verbatim>\<open>sliceBy\<close> keeps the filtered tracks of the collision.
\<close>

definition collisionStep ::
  "('a BarrelTrack_scheme, 'b Collision_scheme, 'vals) dalitzConfig
     \<Rightarrow> 'a BarrelTrack_scheme list \<Rightarrow> 'b Collision_scheme
     \<Rightarrow> 'vals dalitzPairing \<Rightarrow> 'vals dalitzPairing" where
  "collisionStep cfg filteredTracks collision st =
     (let st = st\<lparr>fTrackmap := (\<lambda>_. 0)\<rparr>;
          st = st\<lparr>fgValues := ResetValues cfg (fgValues st)\<rparr>;
          st = st\<lparr>fgValues := FillEvent cfg collision (fgValues st)\<rparr>;
          isEventSelected = fEventCut cfg (fgValues st)
      in if isEventSelected then
           let groupedFilteredTracks =
                 filter (\<lambda>track. collisionId track = collisionGlobalIndex collision) filteredTracks;
               st = runTrackSelection cfg groupedFilteredTracks st
           in runDalitzPairing cfg groupedFilteredTracks st
         else st)"

definition processFullTracks ::
  "('a BarrelTrack_scheme, 'b Collision_scheme, 'vals) dalitzConfig
     \<Rightarrow> 'b Collision_scheme list \<Rightarrow> 'a BarrelTrack_scheme list \<Rightarrow> 'a BarrelTrack_scheme list
     \<Rightarrow> 'vals dalitzPairing \<Rightarrow> uint8_t list \<times> 'vals dalitzPairing" where
  "processFullTracks cfg collisions filteredTracks tracks st =
     (let st = st\<lparr>fDalitzmap := (\<lambda>_. 0)\<rparr>;
          st = fold (collisionStep cfg filteredTracks) collisions st
      in (map (\<lambda>track. fDalitzmap st (globalIndex track)) tracks, st))"

subsection \<open>Femtoscopy kinematics\<close>

text \<open>
  Three-momenta are triples of reals (\<^verbatim>\<open>std::array<float, 3>\<close>), with the usual sum,
  difference, scaling and scalar product.
\<close>

type_synonym vec3 = "real \<times> real \<times> real"

fun vadd :: "vec3 \<Rightarrow> vec3 \<Rightarrow> vec3" where
  "vadd (a, b, c) (x, y, z) = (a + x, b + y, c + z)"

fun vsub :: "vec3 \<Rightarrow> vec3 \<Rightarrow> vec3" where
  "vsub (a, b, c) (x, y, z) = (a - x, b - y, c - z)"

fun smult :: "real \<Rightarrow> vec3 \<Rightarrow> vec3" where
  "smult k (x, y, z) = (k * x, k * y, k * z)"

fun dot :: "vec3 \<Rightarrow> vec3 \<Rightarrow> real" where
  "dot (a, b, c) (x, y, z) = a * x + b * y + c * z"

text \<open>
  Modelled from the spec: the four-vector type \<^verbatim>\<open>ROOT::Math::PxPyPzMVector\<close> and the boost
  \<^verbatim>\<open>ROOT::Math::Boost\<close> are library classes that are not among the files at hand. Section 4.6
  of the specification fixes what they compute: a four-vector is built from a
  three-momentum and a mass with the energy-momentum relation \<open>E\<^sup>2 = p\<^sup>2 + m\<^sup>2\<close>, the boost
  is the exact boost into the rest frame of the sum, and the result is the magnitude of a
  three-momentum. A four-vector is its three-momentum and its energy.
\<close>

record LorentzVector =
  Vect :: vec3
  Energy :: real

text \<open>
  Modelled from the spec: the constructor of \<^verbatim>\<open>ROOT::Math::PxPyPzMVector\<close>, a four-vector
  from a three-momentum and a mass, with \<open>E\<^sup>2 = p\<^sup>2 + m\<^sup>2\<close>.
\<close>

definition PxPyPzMVector :: "real \<Rightarrow> real \<Rightarrow> real \<Rightarrow> real \<Rightarrow> LorentzVector" where
  "PxPyPzMVector x y z m = \<lparr>Vect = (x, y, z), Energy = sqrt (x * x + y * y + z * z + m * m)\<rparr>"

text \<open>Modelled from the spec: the sum of two four-vectors (\<^verbatim>\<open>operator+\<close> of ROOT).\<close>

definition lvAdd :: "LorentzVector \<Rightarrow> LorentzVector \<Rightarrow> LorentzVector" where
  "lvAdd v w = \<lparr>Vect = vadd (Vect v) (Vect w), Energy = Energy v + Energy w\<rparr>"

text \<open>Modelled from the spec: the difference of two four-vectors (\<^verbatim>\<open>operator-\<close> of ROOT).\<close>

definition lvSub :: "LorentzVector \<Rightarrow> LorentzVector \<Rightarrow> LorentzVector" where
  "lvSub v w = \<lparr>Vect = vsub (Vect v) (Vect w), Energy = Energy v - Energy w\<rparr>"

text \<open>
  Modelled from the spec: \<^verbatim>\<open>BoostToCM\<close> of ROOT, the velocity \<open>- p / E\<close> of the boost into
  the rest frame of a four-vector.
\<close>

definition BoostToCM :: "LorentzVector \<Rightarrow> vec3" where
  "BoostToCM v = smult (- 1 / Energy v) (Vect v)"

text \<open>
  Modelled from the spec: \<^verbatim>\<open>ROOT::Math::Boost\<close> applied to a four-vector, the Lorentz boost
  with velocity \<open>beta\<close>.
\<close>

definition Boost :: "vec3 \<Rightarrow> LorentzVector \<Rightarrow> LorentzVector" where
  "Boost beta v =
     (let bp2 = dot beta beta;
          gamma = 1 / sqrt (1 - bp2);
          bgamma = gamma * gamma / (1 + gamma)
      in \<lparr>Vect = vadd (Vect v) (smult (bgamma * dot beta (Vect v) + gamma * Energy v) beta),
          Energy = gamma * (Energy v + dot beta (Vect v))\<rparr>)"

text \<open>
  Modelled from the spec: \<^verbatim>\<open>P\<close> of ROOT, the magnitude of the three-momentum of a
  four-vector.
\<close>

definition magP :: "LorentzVector \<Rightarrow> real" where
  "magP v = sqrt (dot (Vect v) (Vect v))"

text \<open>
  \<^verbatim>\<open>computeRelativeMomentum\<close>, with the proton mass read from the table of PDG masses.
\<close>

definition computeRelativeMomentum :: "PDGMasses \<Rightarrow> Track \<Rightarrow> vec3 \<Rightarrow> real \<Rightarrow> real" where
  "computeRelativeMomentum pdg track CharmCandMomentum CharmMass =
     (let part1 = PxPyPzMVector (px track) (py track) (pz track) (massProton pdg);
          part2 = PxPyPzMVector (fst CharmCandMomentum) (fst (snd CharmCandMomentum))
                    (snd (snd CharmCandMomentum)) CharmMass;
          trackSum = lvAdd part1 part2;
          boostv12 = Boost (BoostToCM trackSum);
          part1CM = boostv12 part1;
          part2CM = boostv12 part2;
          trackRelK = lvSub part1CM part2CM;
          kStar = (1 / 2) * magP trackRelK
      in kStar)"

text \<open>
  A rotation of space is a 3 by 3 matrix with orthonormal columns and determinant 1;
  \<open>rotate3\<close> applies it to a three-momentum and \<open>rotateTrack\<close> to the momentum of a track.
\<close>

record Matrix3 =
  r11 :: real
  r12 :: real
  r13 :: real
  r21 :: real
  r22 :: real
  r23 :: real
  r31 :: real
  r32 :: real
  r33 :: real

definition isRotation :: "Matrix3 \<Rightarrow> bool" where
  "isRotation R \<longleftrightarrow>
       r11 R * r11 R + r21 R * r21 R + r31 R * r31 R = 1
     \<and> r12 R * r12 R + r22 R * r22 R + r32 R * r32 R = 1
     \<and> r13 R * r13 R + r23 R * r23 R + r33 R * r33 R = 1
     \<and> r11 R * r12 R + r21 R * r22 R + r31 R * r32 R = 0
     \<and> r11 R * r13 R + r21 R * r23 R + r31 R * r33 R = 0
     \<and> r12 R * r13 R + r22 R * r23 R + r32 R * r33 R = 0
     \<and> r11 R * (r22 R * r33 R - r23 R * r32 R) - r12 R * (r21 R * r33 R - r23 R * r31 R)
         + r13 R * (r21 R * r32 R - r22 R * r31 R) = 1"

fun rotate3 :: "Matrix3 \<Rightarrow> vec3 \<Rightarrow> vec3" where
  "rotate3 R (x, y, z) =
     (r11 R * x + r12 R * y + r13 R * z,
      r21 R * x + r22 R * y + r23 R * z,
      r31 R * x + r32 R * y + r33 R * z)"

definition rotateTrack :: "Matrix3 \<Rightarrow> Track \<Rightarrow> Track" where
  "rotateTrack R track =
     (let q = rotate3 R (px track, py track, pz track)
      in track\<lparr>px := fst q, py := fst (snd q), pz := snd (snd q)\<rparr>)"

text \<open>A rotated four-vector: the three-momentum is rotated, the energy is kept.\<close>

definition rotLV :: "Matrix3 \<Rightarrow> LorentzVector \<Rightarrow> LorentzVector" where
  "rotLV R v = \<lparr>Vect = rotate3 R (Vect v), Energy = Energy v\<rparr>"

subsection \<open>Fixtures\<close>

text \<open>
  A calibration table with two bins per axis and a track, used to run the helpers on
  concrete inputs. The track lies below the first bin of the cluster-count axis and above
  the last bin of the pseudorapidity axis.
\<close>

definition calibMean :: TH3F where
  "calibMean =
     \<lparr>GetXaxis = fixedAxis 2 60 160, GetYaxis = fixedAxis 2 0 10, GetZaxis = fixedAxis 2 (-1) 1,
      GetBinContent = (\<lambda>bx by bz. if 1 \<le> bx \<and> bx \<le> 2 \<and> 1 \<le> by \<and> by \<le> 2 \<and> 1 \<le> bz \<and> bz \<le> 2
                                    then 1 / 2 else 0)\<rparr>"

definition calibSigma :: TH3F where
  "calibSigma =
     \<lparr>GetXaxis = fixedAxis 2 60 160, GetYaxis = fixedAxis 2 0 10, GetZaxis = fixedAxis 2 (-1) 1,
      GetBinContent = (\<lambda>bx by bz. if 1 \<le> bx \<and> bx \<le> 2 \<and> 1 \<le> by \<and> by \<le> 2 \<and> 1 \<le> bz \<and> bz \<le> 2
                                    then 2 else 0)\<rparr>"

text \<open>
  Rounded PDG masses in GeV and an invariant-mass function that puts every candidate at
  1.87 GeV, inside a 50 MeV window around the \<open>D\<^sup>0\<close> mass and outside it for the other
  hadrons.
\<close>

definition pdgRounded :: PDGMasses where
  "pdgRounded =
     \<lparr>massPi = 140 / 1000, massK = 494 / 1000, massProton = 938 / 1000, massPhi = 1019 / 1000,
      massD0 = 1865 / 1000, massDPlus = 1870 / 1000, massDs = 1968 / 1000,
      massLc = 2286 / 1000, massXic = 2468 / 1000\<rparr>"

definition massAt187 :: "real list list \<Rightarrow> real list \<Rightarrow> real" where
  "massAt187 arrMom arrMass = 187 / 100"

definition centralGamma :: Gamma where
  "centralGamma = \<lparr>etaGamma = 1 / 10, v0radius = 50, alpha = 1 / 10, qtarm = 1 / 100,
                    psipair = 0\<rparr>"

definition edgeTrack :: Track where
  "edgeTrack =
     \<lparr>pt = 1, eta = 3 / 2, pTrack = 2, px = 1, py = 0, pz = 1, isGlobalTrack = 1,
      hasTOF = False, tpcNClsFound = 50, tpcInnerParam = 3,
      tpcNSigmaPr = 5 / 2, tofNSigmaPr = -999, tpcNSigmaKa = 3 / 2, tofNSigmaKa = -999,
      tpcNSigmaPi = 1 / 2, tofNSigmaPi = -999\<rparr>"

text \<open>The rotation by a quarter turn about the third axis.\<close>

definition rotZ90 :: Matrix3 where
  "rotZ90 = \<lparr>r11 = 0, r12 = -1, r13 = 0, r21 = 1, r22 = 0, r23 = 0, r31 = 0, r32 = 0, r33 = 1\<rparr>"

text \<open>
  A run of the Dalitz task on one collision with three tracks, one track cut that every
  track passes and one pair cut that only the pair of rows 0 and 1 passes. The variable
  manager holds a single number: the row of the track, or the sum of the rows of a pair.
  Rows 0 and 2 are positive, row 1 is negative.
\<close>

definition dalitzConfigEx :: "(BarrelTrack, Collision, int) dalitzConfig" where
  "dalitzConfigEx =
     \<lparr>fEventCut = (\<lambda>vals. True),
      fTrackCuts = [\<lambda>vals. 0 \<le> vals],
      fPairCuts = [\<lambda>vals. vals = 1],
      fQA = True,
      ResetValues = (\<lambda>vals. 0),
      FillEvent = (\<lambda>collision vals. vals),
      FillTrack = (\<lambda>track vals. globalIndex track),
      FillPair = (\<lambda>track1 track2 vals. globalIndex track1 + globalIndex track2)\<rparr>"

definition dalitzTracksEx :: "BarrelTrack list" where
  "dalitzTracksEx =
     [\<lparr>globalIndex = 0, collisionId = 0, sign = 1\<rparr>,
      \<lparr>globalIndex = 1, collisionId = 0, sign = -1\<rparr>,
      \<lparr>globalIndex = 2, collisionId = 0, sign = 1\<rparr>]"

definition dalitzStateEx :: "int dalitzPairing" where
  "dalitzStateEx =
     \<lparr>fTrackmap = (\<lambda>_. 0), fDalitzmap = (\<lambda>_. 0), fgValues = 0, fHistMan = [], fStatsList = []\<rparr>"

section \<open>Bit-level helper facts\<close>

lemma bit_BIT: "bit (BIT n) k \<longleftrightarrow> k = n \<and> n < 8"
  by (auto simp add: BIT_def push_bit_eq_mult bit_exp_iff possible_bit_word)

lemma TESTBIT_bit: "TESTBIT w k \<longleftrightarrow> bit w k"
proof -
  have "w AND BIT k \<noteq> 0 \<longleftrightarrow> (\<exists>n. bit (w AND BIT k) n)"
    by (metis bit_eq_iff bit_0_eq bot_apply bot_bool_def)
  also have "\<dots> \<longleftrightarrow> bit w k"
    by (auto simp add: bit_and_iff bit_BIT dest: bit_imp_le_length)
  finally show ?thesis by (simp add: TESTBIT_def)
qed

section \<open>ML score classifier\<close>

text \<open>
  Claim C1. \<^verbatim>\<open>isBDTSelected\<close> returns the empty bitmask when fewer than three scores are
  supplied, returns the empty bitmask whenever the background score exceeds its threshold,
  whatever the other two scores are, and otherwise sets the prompt bit exactly when the
  prompt score exceeds the prompt threshold and the non-prompt bit exactly when the
  non-prompt score exceeds the non-prompt threshold; no other bit is ever set. The two
  origin bits are distinct positions of the 8-bit mask.
\<close>

theorem isBDTSelected_classifies:
  assumes "Prompt < 8" and "NonPrompt < 8" and "Prompt \<noteq> NonPrompt"
  shows "(length scores < 3 \<longrightarrow> isBDTSelected Prompt NonPrompt scores thr = 0)
       \<and> (scores ! 0 > BDTbkg thr \<longrightarrow> isBDTSelected Prompt NonPrompt scores thr = 0)
       \<and> (3 \<le> length scores \<and> \<not> scores ! 0 > BDTbkg thr \<longrightarrow>
            (bit (isBDTSelected Prompt NonPrompt scores thr) Prompt
               \<longleftrightarrow> scores ! 1 > BDTprompt thr)
          \<and> (bit (isBDTSelected Prompt NonPrompt scores thr) NonPrompt
               \<longleftrightarrow> scores ! 2 > BDTnonprompt thr)
          \<and> (\<forall>k. bit (isBDTSelected Prompt NonPrompt scores thr) k
                 \<longrightarrow> k = Prompt \<or> k = NonPrompt))"
  using assms
  by (auto simp add: isBDTSelected_def Let_def bit_or_iff bit_BIT)

theorem isBDTSelected_classifies_witness:
  "(1::nat) < 8 \<and> (2::nat) < 8 \<and> (1::nat) \<noteq> 2
   \<and> 3 \<le> length [1/10, 8/10, 1/10 :: real]
   \<and> \<not> [1/10, 8/10, 1/10 :: real] ! 0 > BDTbkg \<lparr>BDTbkg = 1/2, BDTprompt = 1/2, BDTnonprompt = 1/2\<rparr>
   \<and> bit (isBDTSelected 1 2 [1/10, 8/10, 1/10]
            \<lparr>BDTbkg = 1/2, BDTprompt = 1/2, BDTnonprompt = 1/2\<rparr>) 1
   \<and> \<not> bit (isBDTSelected 1 2 [1/10, 8/10, 1/10]
            \<lparr>BDTbkg = 1/2, BDTprompt = 1/2, BDTnonprompt = 1/2\<rparr>) 2
   \<and> isBDTSelected 1 2 [9/10, 99/100, 99/100]
            \<lparr>BDTbkg = 1/2, BDTprompt = 1/2, BDTnonprompt = 1/2\<rparr> = 0"
  using isBDTSelected_classifies [of 1 2 "[1/10, 8/10, 1/10]"
          "\<lparr>BDTbkg = 1/2, BDTprompt = 1/2, BDTnonprompt = 1/2\<rparr>"]
        isBDTSelected_classifies [of 1 2 "[9/10, 99/100, 99/100]"
          "\<lparr>BDTbkg = 1/2, BDTprompt = 1/2, BDTnonprompt = 1/2\<rparr>"]
  by simp

text \<open>
  Claim C4, as stated, fails: with all three thresholds at 0.5 the failure sentinel
  \<^verbatim>\<open>{-1, 2, 2}\<close> is classified as prompt and non-prompt (bits 1 and 2, value 6), not as
  the empty bitmask.
\<close>

theorem failureSentinel_selected_counterexample:
  "isBDTSelected 1 2 failureSentinel \<lparr>BDTbkg = 1/2, BDTprompt = 1/2, BDTnonprompt = 1/2\<rparr> = 6
   \<and> isBDTSelected 1 2 failureSentinel \<lparr>BDTbkg = 1/2, BDTprompt = 1/2, BDTnonprompt = 1/2\<rparr> \<noteq> 0"
  by (simp add: isBDTSelected_def failureSentinel_def BIT_def)

text \<open>
  Claim C4, amended. For every threshold configuration with the three thresholds in
  \<open>[0, 1]\<close>, \<^verbatim>\<open>isBDTSelected\<close> applied to the failure sentinel \<^verbatim>\<open>{-1, 2, 2}\<close> passes all three
  comparisons: the background score -1 does not exceed the background threshold, and
  both the prompt and the non-prompt bit are set, so the result is never the empty bitmask.
\<close>

theorem failureSentinel_passes_all:
  assumes "Prompt < 8" and "NonPrompt < 8"
    and "0 \<le> BDTbkg thr" and "BDTbkg thr \<le> 1"
    and "0 \<le> BDTprompt thr" and "BDTprompt thr \<le> 1"
    and "0 \<le> BDTnonprompt thr" and "BDTnonprompt thr \<le> 1"
  shows "isBDTSelected Prompt NonPrompt failureSentinel thr = BIT Prompt OR BIT NonPrompt
       \<and> bit (isBDTSelected Prompt NonPrompt failureSentinel thr) Prompt
       \<and> bit (isBDTSelected Prompt NonPrompt failureSentinel thr) NonPrompt
       \<and> isBDTSelected Prompt NonPrompt failureSentinel thr \<noteq> 0"
proof -
  have r: "isBDTSelected Prompt NonPrompt failureSentinel thr = BIT Prompt OR BIT NonPrompt"
    using assms by (simp add: isBDTSelected_def failureSentinel_def)
  have p: "bit (BIT Prompt OR BIT NonPrompt) Prompt"
    using assms by (simp add: bit_or_iff bit_BIT)
  have n: "bit (BIT Prompt OR BIT NonPrompt) NonPrompt"
    using assms by (simp add: bit_or_iff bit_BIT)
  from p have "BIT Prompt OR BIT NonPrompt \<noteq> 0"
    by (metis bit_0_eq bot_apply bot_bool_def)
  with r p n show ?thesis by simp
qed

theorem failureSentinel_passes_all_witness:
  "(1::nat) < 8 \<and> (2::nat) < 8
   \<and> 0 \<le> BDTbkg \<lparr>BDTbkg = 0, BDTprompt = 1, BDTnonprompt = 3/10\<rparr>
   \<and> BDTbkg \<lparr>BDTbkg = 0, BDTprompt = 1, BDTnonprompt = 3/10\<rparr> \<le> 1
   \<and> 0 \<le> BDTprompt \<lparr>BDTbkg = 0, BDTprompt = 1, BDTnonprompt = 3/10\<rparr>
   \<and> BDTprompt \<lparr>BDTbkg = 0, BDTprompt = 1, BDTnonprompt = 3/10\<rparr> \<le> 1
   \<and> 0 \<le> BDTnonprompt \<lparr>BDTbkg = 0, BDTprompt = 1, BDTnonprompt = 3/10\<rparr>
   \<and> BDTnonprompt \<lparr>BDTbkg = 0, BDTprompt = 1, BDTnonprompt = 3/10\<rparr> \<le> 1
   \<and> bit (isBDTSelected 1 2 failureSentinel \<lparr>BDTbkg = 0, BDTprompt = 1, BDTnonprompt = 3/10\<rparr>) 1
   \<and> bit (isBDTSelected 1 2 failureSentinel \<lparr>BDTbkg = 0, BDTprompt = 1, BDTnonprompt = 3/10\<rparr>) 2
   \<and> isBDTSelected 1 2 failureSentinel \<lparr>BDTbkg = 0, BDTprompt = 1, BDTnonprompt = 3/10\<rparr> \<noteq> 0"
  using failureSentinel_passes_all
          [of 1 2 "\<lparr>BDTbkg = 0, BDTprompt = 1, BDTnonprompt = 3/10\<rparr>", THEN conjunct2]
  by simp

section \<open>PID calibration lookup\<close>

lemma FindFixBin_inside:
  assumes n: "1 \<le> n" and lo: "lo \<le> x" and hi: "x < hi"
  shows "0 \<le> \<lfloor>real_of_int n * (x - lo) / (hi - lo)\<rfloor>"
    and "\<lfloor>real_of_int n * (x - lo) / (hi - lo)\<rfloor> < n"
proof -
  have d: "0 < hi - lo" using lo hi by simp
  have q0: "0 \<le> (x - lo) / (hi - lo)" using lo d by simp
  have q1: "(x - lo) / (hi - lo) < 1" using hi d by simp
  have n0: "0 < real_of_int n" using n by simp
  have a: "0 \<le> real_of_int n * ((x - lo) / (hi - lo))"
    using n0 q0 by (intro mult_nonneg_nonneg) simp_all
  have "real_of_int n * ((x - lo) / (hi - lo)) < real_of_int n * 1"
    using n0 q1 by (intro mult_strict_left_mono) simp_all
  then have b: "real_of_int n * ((x - lo) / (hi - lo)) < real_of_int n" by simp
  have e: "real_of_int n * (x - lo) / (hi - lo) = real_of_int n * ((x - lo) / (hi - lo))"
    by simp
  show "0 \<le> \<lfloor>real_of_int n * (x - lo) / (hi - lo)\<rfloor>"
    unfolding e using a by simp
  show "\<lfloor>real_of_int n * (x - lo) / (hi - lo)\<rfloor> < n"
    unfolding e using b by (simp add: floor_less_iff)
qed

lemma fixedAxis_ok:
  assumes n: "1 \<le> n"
  shows "axisOK (fixedAxis n lo hi)"
proof -
  have "0 \<le> FindBin (fixedAxis n lo hi) x \<and> FindBin (fixedAxis n lo hi) x \<le> n + 1" for x
  proof (cases "x < lo")
    case True
    then show ?thesis using n by (simp add: fixedAxis_def)
  next
    case False
    show ?thesis
    proof (cases "x < hi")
      case True
      have "lo \<le> x" using False by simp
      from FindFixBin_inside [OF n this True] \<open>\<not> x < lo\<close> True
      show ?thesis unfolding fixedAxis_def by (simp del: zero_le_floor floor_less_iff)
    next
      case False
      then show ?thesis using n \<open>\<not> x < lo\<close> by (simp add: fixedAxis_def)
    qed
  qed
  then show ?thesis using n
    unfolding axisOK_def by (simp add: fixedAxis_def)
qed

lemma clamp_in_range:
  assumes "axisOK ax"
  shows "1 \<le> min (GetNbins ax) (if FindBin ax x = 0 then 1 else FindBin ax x)"
    and "min (GetNbins ax) (if FindBin ax x = 0 then 1 else FindBin ax x) \<le> GetNbins ax"
  using assms unfolding axisOK_def
  by (auto simp add: min_def dest: spec [of _ x])


lemma clampedBin_cases:
  "min n (if b = 0 then 1 else b) = (if b = 0 then min n 1 else if b > n then n else b)" for n b :: int
  by (simp add: min_def)

text \<open>
  Claim C3. For every track, \<^verbatim>\<open>getTPCPostCalib\<close> reads the mean and the sigma table at one
  bin triple, each index of which lies in \<open>[1, N]\<close> for its axis: an index 0 (below the
  first bin) becomes 1, an index above \<open>N\<close> (beyond the last bin) becomes \<open>N\<close>, any other
  index is kept. The value returned is (raw deviation - mean) / sigma at that triple, and
  it is the same for any two pairs of tables that agree on the bins inside \<open>[1, N]\<close>: no
  cell outside the range influences it. \<open>N\<close> is the number of bins of the mean table, whose
  axes the source uses for both tables.
\<close>

theorem getTPCPostCalib_reads_clamped_bins:
  assumes X: "axisOK (GetXaxis hCalibMean)"
    and Y: "axisOK (GetYaxis hCalibMean)"
    and Z: "axisOK (GetZaxis hCalibMean)"
    and species: "pidSpecies = kKa \<or> pidSpecies = kPi \<or> pidSpecies = kPr"
  shows "\<exists>binX binY binZ.
      (1 \<le> binX \<and> binX \<le> GetNbins (GetXaxis hCalibMean))
    \<and> (1 \<le> binY \<and> binY \<le> GetNbins (GetYaxis hCalibMean))
    \<and> (1 \<le> binZ \<and> binZ \<le> GetNbins (GetZaxis hCalibMean))
    \<and> binX = (let b = FindBin (GetXaxis hCalibMean) (tpcNClsFound track)
               in if b = 0 then 1 else if b > GetNbins (GetXaxis hCalibMean)
                  then GetNbins (GetXaxis hCalibMean) else b)
    \<and> binY = (let b = FindBin (GetYaxis hCalibMean) (tpcInnerParam track)
               in if b = 0 then 1 else if b > GetNbins (GetYaxis hCalibMean)
                  then GetNbins (GetYaxis hCalibMean) else b)
    \<and> binZ = (let b = FindBin (GetZaxis hCalibMean) (eta track)
               in if b = 0 then 1 else if b > GetNbins (GetZaxis hCalibMean)
                  then GetNbins (GetZaxis hCalibMean) else b)
    \<and> getTPCPostCalib hCalibMean hCalibSigma track pidSpecies
        = Inr (((if pidSpecies = kKa then tpcNSigmaKa track
                 else if pidSpecies = kPi then tpcNSigmaPi track
                 else tpcNSigmaPr track)
                - GetBinContent hCalibMean binX binY binZ)
               / GetBinContent hCalibSigma binX binY binZ)
    \<and> (\<forall>hMean' hSigma'.
          GetXaxis hMean' = GetXaxis hCalibMean \<and> GetYaxis hMean' = GetYaxis hCalibMean
        \<and> GetZaxis hMean' = GetZaxis hCalibMean
        \<and> (\<forall>i j k. 1 \<le> i \<and> i \<le> GetNbins (GetXaxis hCalibMean)
                  \<and> 1 \<le> j \<and> j \<le> GetNbins (GetYaxis hCalibMean)
                  \<and> 1 \<le> k \<and> k \<le> GetNbins (GetZaxis hCalibMean)
              \<longrightarrow> GetBinContent hMean' i j k = GetBinContent hCalibMean i j k
                \<and> GetBinContent hSigma' i j k = GetBinContent hCalibSigma i j k)
        \<longrightarrow> getTPCPostCalib hMean' hSigma' track pidSpecies
            = getTPCPostCalib hCalibMean hCalibSigma track pidSpecies)"
proof -
  define binX where
    "binX = min (GetNbins (GetXaxis hCalibMean))
              (if FindBin (GetXaxis hCalibMean) (tpcNClsFound track) = 0 then 1
               else FindBin (GetXaxis hCalibMean) (tpcNClsFound track))"
  define binY where
    "binY = min (GetNbins (GetYaxis hCalibMean))
              (if FindBin (GetYaxis hCalibMean) (tpcInnerParam track) = 0 then 1
               else FindBin (GetYaxis hCalibMean) (tpcInnerParam track))"
  define binZ where
    "binZ = min (GetNbins (GetZaxis hCalibMean))
              (if FindBin (GetZaxis hCalibMean) (eta track) = 0 then 1
               else FindBin (GetZaxis hCalibMean) (eta track))"
  have rX: "1 \<le> binX \<and> binX \<le> GetNbins (GetXaxis hCalibMean)"
    unfolding binX_def using clamp_in_range [OF X] by blast
  have rY: "1 \<le> binY \<and> binY \<le> GetNbins (GetYaxis hCalibMean)"
    unfolding binY_def using clamp_in_range [OF Y] by blast
  have rZ: "1 \<le> binZ \<and> binZ \<le> GetNbins (GetZaxis hCalibMean)"
    unfolding binZ_def using clamp_in_range [OF Z] by blast
  have nX: "1 \<le> GetNbins (GetXaxis hCalibMean)" using X by (simp add: axisOK_def)
  have nY: "1 \<le> GetNbins (GetYaxis hCalibMean)" using Y by (simp add: axisOK_def)
  have nZ: "1 \<le> GetNbins (GetZaxis hCalibMean)" using Z by (simp add: axisOK_def)
  have cX: "binX = (let b = FindBin (GetXaxis hCalibMean) (tpcNClsFound track)
               in if b = 0 then 1 else if b > GetNbins (GetXaxis hCalibMean)
                  then GetNbins (GetXaxis hCalibMean) else b)"
    unfolding binX_def Let_def clampedBin_cases using nX by simp
  have cY: "binY = (let b = FindBin (GetYaxis hCalibMean) (tpcInnerParam track)
               in if b = 0 then 1 else if b > GetNbins (GetYaxis hCalibMean)
                  then GetNbins (GetYaxis hCalibMean) else b)"
    unfolding binY_def Let_def clampedBin_cases using nY by simp
  have cZ: "binZ = (let b = FindBin (GetZaxis hCalibMean) (eta track)
               in if b = 0 then 1 else if b > GetNbins (GetZaxis hCalibMean)
                  then GetNbins (GetZaxis hCalibMean) else b)"
    unfolding binZ_def Let_def clampedBin_cases using nZ by simp
  have val: "getTPCPostCalib hMean' hSigma' track pidSpecies
        = Inr (((if pidSpecies = kKa then tpcNSigmaKa track
                 else if pidSpecies = kPi then tpcNSigmaPi track
                 else tpcNSigmaPr track)
                - GetBinContent hMean' binX binY binZ)
               / GetBinContent hSigma' binX binY binZ)"
    if "GetXaxis hMean' = GetXaxis hCalibMean" "GetYaxis hMean' = GetYaxis hCalibMean"
       "GetZaxis hMean' = GetZaxis hCalibMean" for hMean' hSigma'
    using species that
    by (auto simp add: getTPCPostCalib_def Let_def binX_def binY_def binZ_def)
  have same: "getTPCPostCalib hMean' hSigma' track pidSpecies
            = getTPCPostCalib hCalibMean hCalibSigma track pidSpecies"
    if ax: "GetXaxis hMean' = GetXaxis hCalibMean" "GetYaxis hMean' = GetYaxis hCalibMean"
       "GetZaxis hMean' = GetZaxis hCalibMean"
      and agree: "\<forall>i j k. 1 \<le> i \<and> i \<le> GetNbins (GetXaxis hCalibMean)
                  \<and> 1 \<le> j \<and> j \<le> GetNbins (GetYaxis hCalibMean)
                  \<and> 1 \<le> k \<and> k \<le> GetNbins (GetZaxis hCalibMean)
              \<longrightarrow> GetBinContent hMean' i j k = GetBinContent hCalibMean i j k
                \<and> GetBinContent hSigma' i j k = GetBinContent hCalibSigma i j k"
    for hMean' hSigma'
  proof -
    from agree rX rY rZ
    have "GetBinContent hMean' binX binY binZ = GetBinContent hCalibMean binX binY binZ"
      and "GetBinContent hSigma' binX binY binZ = GetBinContent hCalibSigma binX binY binZ"
      by blast+
    then show ?thesis
      using val [OF ax, of hSigma'] val [of hCalibMean hCalibSigma] by simp
  qed
  show ?thesis
    apply (rule exI [of _ binX], rule exI [of _ binY], rule exI [of _ binZ])
    using rX rY rZ cX cY cZ val [of hCalibMean hCalibSigma] same
    by blast
qed


theorem getTPCPostCalib_reads_clamped_bins_witness:
  "axisOK (GetXaxis calibMean) \<and> axisOK (GetYaxis calibMean) \<and> axisOK (GetZaxis calibMean)
   \<and> (kPr = kKa \<or> kPr = kPi \<or> kPr = kPr)
   \<and> FindBin (GetXaxis calibMean) (tpcNClsFound edgeTrack) = 0
   \<and> FindBin (GetZaxis calibMean) (eta edgeTrack) = GetNbins (GetZaxis calibMean) + 1
   \<and> getTPCPostCalib calibMean calibSigma edgeTrack kPr
       = Inr ((tpcNSigmaPr edgeTrack - GetBinContent calibMean 1 1 2)
              / GetBinContent calibSigma 1 1 2)"
proof -
  have X: "axisOK (GetXaxis calibMean)" by (simp add: calibMean_def fixedAxis_ok)
  have Y: "axisOK (GetYaxis calibMean)" by (simp add: calibMean_def fixedAxis_ok)
  have Z: "axisOK (GetZaxis calibMean)" by (simp add: calibMean_def fixedAxis_ok)
  have fX: "FindBin (GetXaxis calibMean) (tpcNClsFound edgeTrack) = 0"
    by (simp add: calibMean_def edgeTrack_def fixedAxis_def)
  have fY: "FindBin (GetYaxis calibMean) (tpcInnerParam edgeTrack) = 1"
    by (simp add: calibMean_def edgeTrack_def fixedAxis_def)
  have fZ: "FindBin (GetZaxis calibMean) (eta edgeTrack) = 3"
    by (simp add: calibMean_def edgeTrack_def fixedAxis_def)
  have n: "GetNbins (GetXaxis calibMean) = 2" "GetNbins (GetYaxis calibMean) = 2"
    "GetNbins (GetZaxis calibMean) = 2"
    by (simp_all add: calibMean_def fixedAxis_def)
  have sp: "kPr \<noteq> kKa" "kPr \<noteq> kPi" by (simp_all add: kPr_def kKa_def kPi_def)
  from getTPCPostCalib_reads_clamped_bins [OF X Y Z, of kPr edgeTrack calibSigma]
  obtain binX binY binZ where
    "binX = (let b = FindBin (GetXaxis calibMean) (tpcNClsFound edgeTrack)
               in if b = 0 then 1 else if b > GetNbins (GetXaxis calibMean)
                  then GetNbins (GetXaxis calibMean) else b)"
    "binY = (let b = FindBin (GetYaxis calibMean) (tpcInnerParam edgeTrack)
               in if b = 0 then 1 else if b > GetNbins (GetYaxis calibMean)
                  then GetNbins (GetYaxis calibMean) else b)"
    "binZ = (let b = FindBin (GetZaxis calibMean) (eta edgeTrack)
               in if b = 0 then 1 else if b > GetNbins (GetZaxis calibMean)
                  then GetNbins (GetZaxis calibMean) else b)"
    "getTPCPostCalib calibMean calibSigma edgeTrack kPr
        = Inr (((if kPr = kKa then tpcNSigmaKa edgeTrack
                 else if kPr = kPi then tpcNSigmaPi edgeTrack
                 else tpcNSigmaPr edgeTrack)
                - GetBinContent calibMean binX binY binZ)
               / GetBinContent calibSigma binX binY binZ)"
    by blast
  then have "getTPCPostCalib calibMean calibSigma edgeTrack kPr
       = Inr ((tpcNSigmaPr edgeTrack - GetBinContent calibMean 1 1 2)
              / GetBinContent calibSigma 1 1 2)"
    using sp by (simp add: fX fY fZ n)
  then show ?thesis using X Y Z fX fZ n by simp
qed

lemma getTPCPostCalib_species:
  "pidSpecies = kKa \<or> pidSpecies = kPi \<or> pidSpecies = kPr
     \<Longrightarrow> \<exists>v. getTPCPostCalib hCalibMean hCalibSigma track pidSpecies = Inr v"
  "pidSpecies \<noteq> kKa \<Longrightarrow> pidSpecies \<noteq> kPi \<Longrightarrow> pidSpecies \<noteq> kPr
     \<Longrightarrow> getTPCPostCalib hCalibMean hCalibSigma track pidSpecies = Inl FatalWrongPIDSpecies"
  unfolding getTPCPostCalib_def Let_def by (simp_all, (cases "pidSpecies = kKa"; cases "pidSpecies = kPi"; simp))

lemma kSpecies_distinct:
  "kEl \<noteq> kKa" "kEl \<noteq> kPi" "kEl \<noteq> kPr" "kKa \<noteq> kPi" "kKa \<noteq> kPr" "kPi \<noteq> kPr"
  by (simp_all add: kEl_def kKa_def kPi_def kPr_def)

lemma getTPCPostCalib_not_read:
  "getTPCPostCalib hCalibMean hCalibSigma (track\<lparr>tofNSigmaPr := tof'\<rparr>) pidSpecies
     = getTPCPostCalib hCalibMean hCalibSigma track pidSpecies"
  unfolding getTPCPostCalib_def by simp


lemma isSelectedKaon4Charm3Prong_postcalib:
  assumes "getTPCPostCalib hMapPionMean hMapPionSigma track kKa = Inr v"
  shows "isSelectedKaon4Charm3Prong track nsigmaTPC nsigmaTOF True hMapPionMean hMapPionSigma
           = Inr (\<bar>v\<bar> \<le> nsigmaTPC \<and> (hasTOF track \<longrightarrow> \<bar>tofNSigmaKa track\<bar> \<le> nsigmaTOF))"
  unfolding isSelectedKaon4Charm3Prong_def Let_def using assms by (simp add: not_less)

text \<open>
  Claim C5, as stated, fails for the electron tag: \<^verbatim>\<open>kEl\<close> has no branch in
  \<^verbatim>\<open>getTPCPostCalib\<close> and falls through to the fatal error.
\<close>

theorem getTPCPostCalib_electron_counterexample:
  "getTPCPostCalib calibMean calibSigma edgeTrack kEl = Inl FatalWrongPIDSpecies"
  by (simp add: getTPCPostCalib_def kEl_def kKa_def kPi_def kPr_def)

text \<open>
  Claim C5, amended. \<^verbatim>\<open>getTPCPostCalib\<close> returns a corrected deviation for the species tags
  kaon, pion and proton, and fails fatally for every other tag, the electron tag \<^verbatim>\<open>kEl\<close>
  included. The kaon selection \<^verbatim>\<open>isSelectedKaon4Charm3Prong\<close> corrects the kaon deviation
  with the tables it is given, which are the pion calibration tables.
\<close>

theorem getTPCPostCalib_fatal_iff:
  "(getTPCPostCalib hCalibMean hCalibSigma track pidSpecies = Inl FatalWrongPIDSpecies
      \<longleftrightarrow> pidSpecies \<noteq> kKa \<and> pidSpecies \<noteq> kPi \<and> pidSpecies \<noteq> kPr)
   \<and> (pidSpecies = kKa \<or> pidSpecies = kPi \<or> pidSpecies = kPr
      \<longrightarrow> (\<exists>v. getTPCPostCalib hCalibMean hCalibSigma track pidSpecies = Inr v))
   \<and> getTPCPostCalib hCalibMean hCalibSigma track kEl = Inl FatalWrongPIDSpecies
   \<and> (\<exists>v. getTPCPostCalib hMapPionMean hMapPionSigma track kKa = Inr v
          \<and> isSelectedKaon4Charm3Prong track nsigmaTPC nsigmaTOF True hMapPionMean hMapPionSigma
              = Inr (\<bar>v\<bar> \<le> nsigmaTPC \<and> (hasTOF track \<longrightarrow> \<bar>tofNSigmaKa track\<bar> \<le> nsigmaTOF)))"
proof (intro conjI)
  show "getTPCPostCalib hCalibMean hCalibSigma track pidSpecies = Inl FatalWrongPIDSpecies
      \<longleftrightarrow> pidSpecies \<noteq> kKa \<and> pidSpecies \<noteq> kPi \<and> pidSpecies \<noteq> kPr"
    using getTPCPostCalib_species [of pidSpecies hCalibMean hCalibSigma track] by force
  show "pidSpecies = kKa \<or> pidSpecies = kPi \<or> pidSpecies = kPr
      \<longrightarrow> (\<exists>v. getTPCPostCalib hCalibMean hCalibSigma track pidSpecies = Inr v)"
    using getTPCPostCalib_species(1) by blast
  show "getTPCPostCalib hCalibMean hCalibSigma track kEl = Inl FatalWrongPIDSpecies"
    using getTPCPostCalib_species(2) kSpecies_distinct by blast
  obtain v where v: "getTPCPostCalib hMapPionMean hMapPionSigma track kKa = Inr v"
    using getTPCPostCalib_species(1) [of kKa] by blast
  show "\<exists>v. getTPCPostCalib hMapPionMean hMapPionSigma track kKa = Inr v
          \<and> isSelectedKaon4Charm3Prong track nsigmaTPC nsigmaTOF True hMapPionMean hMapPionSigma
              = Inr (\<bar>v\<bar> \<le> nsigmaTPC \<and> (hasTOF track \<longrightarrow> \<bar>tofNSigmaKa track\<bar> \<le> nsigmaTOF))"
    using v isSelectedKaon4Charm3Prong_postcalib [OF v] by blast
qed

theorem getTPCPostCalib_fatal_iff_witness:
  "(kKa = kKa \<or> kKa = kPi \<or> kKa = kPr)
   \<and> (\<exists>v. getTPCPostCalib calibMean calibSigma edgeTrack kKa = Inr v)
   \<and> (7 \<noteq> kKa \<and> 7 \<noteq> kPi \<and> 7 \<noteq> kPr)
   \<and> getTPCPostCalib calibMean calibSigma edgeTrack 7 = Inl FatalWrongPIDSpecies"
  using getTPCPostCalib_fatal_iff [of calibMean calibSigma edgeTrack kKa]
    getTPCPostCalib_fatal_iff [of calibMean calibSigma edgeTrack 7]
  by (simp add: kKa_def kPi_def kPr_def)

text \<open>
  Claim C7. A track without TOF measurement whose TPC proton deviation (post-calibrated
  when post-calibration is switched on) is within the TPC threshold in absolute value is
  accepted by \<^verbatim>\<open>isSelectedProton4CharmBaryons\<close>, whatever its TOF deviation and whatever the
  TOF threshold: the TOF comparison is made only for a track that has a TOF measurement.
\<close>

theorem isSelectedProton4CharmBaryons_without_TOF:
  assumes noTOF: "\<not> hasTOF track"
    and within: "if computeTPCPostCalib
         then \<exists>v. getTPCPostCalib hMapProtonMean hMapProtonSigma track kPr = Inr v
                  \<and> \<bar>v\<bar> \<le> nsigmaTPCProtonLc
         else \<bar>tpcNSigmaPr track\<bar> \<le> nsigmaTPCProtonLc"
  shows "isSelectedProton4CharmBaryons track nsigmaTPCProtonLc nsigmaTOFProtonLc
           computeTPCPostCalib hMapProtonMean hMapProtonSigma = Inr True
       \<and> (\<forall>nsigmaTOF' tof'.
            isSelectedProton4CharmBaryons (track\<lparr>tofNSigmaPr := tof'\<rparr>) nsigmaTPCProtonLc
              nsigmaTOF' computeTPCPostCalib hMapProtonMean hMapProtonSigma = Inr True)"
proof (cases computeTPCPostCalib)
  case True
  with within obtain v where
    v: "getTPCPostCalib hMapProtonMean hMapProtonSigma track kPr = Inr v"
      "\<bar>v\<bar> \<le> nsigmaTPCProtonLc"
    by auto
  show ?thesis
    unfolding isSelectedProton4CharmBaryons_def Let_def getTPCPostCalib_not_read
    using True v noTOF by simp
next
  case False
  with within have "\<bar>tpcNSigmaPr track\<bar> \<le> nsigmaTPCProtonLc" by simp
  then show ?thesis
    unfolding isSelectedProton4CharmBaryons_def Let_def
    using False noTOF by simp
qed

theorem isSelectedProton4CharmBaryons_without_TOF_witness:
  "\<not> hasTOF edgeTrack
   \<and> getTPCPostCalib calibMean calibSigma edgeTrack kPr = Inr 1 \<and> \<bar>1 :: real\<bar> \<le> 3
   \<and> \<bar>tpcNSigmaPr edgeTrack\<bar> \<le> 3
   \<and> \<bar>tofNSigmaPr edgeTrack\<bar> > 3
   \<and> isSelectedProton4CharmBaryons edgeTrack 3 3 True calibMean calibSigma = Inr True
   \<and> isSelectedProton4CharmBaryons edgeTrack 3 3 False calibMean calibSigma = Inr True"
proof -
  have h: "\<not> hasTOF edgeTrack" by (simp add: edgeTrack_def)
  have v: "getTPCPostCalib calibMean calibSigma edgeTrack kPr = Inr 1"
    by (simp add: getTPCPostCalib_def calibMean_def calibSigma_def edgeTrack_def
          fixedAxis_def kPr_def kKa_def kPi_def)
  have r: "\<bar>tpcNSigmaPr edgeTrack\<bar> \<le> 3" "\<bar>tofNSigmaPr edgeTrack\<bar> > 3"
    by (simp_all add: edgeTrack_def)
  have a: "isSelectedProton4CharmBaryons edgeTrack 3 3 True calibMean calibSigma = Inr True"
    using isSelectedProton4CharmBaryons_without_TOF
            [of edgeTrack True calibMean calibSigma 3 3] h v
    by simp
  have b: "isSelectedProton4CharmBaryons edgeTrack 3 3 False calibMean calibSigma = Inr True"
    using isSelectedProton4CharmBaryons_without_TOF
            [of edgeTrack False calibMean calibSigma 3 3] h r
    by simp
  show ?thesis using h v r a b by simp
qed

section \<open>Independent-candidate counter\<close>

lemma overlapSecond_iff: "overlapSecond x ys h \<longleftrightarrow> h \<or> x \<in> set ys"
  by (induction ys) auto

lemma overlapFirst_iff: "overlapFirst xs ys h \<longleftrightarrow> h \<or> set xs \<inter> set ys \<noteq> {}"
  by (induction xs arbitrary: h) (auto simp add: overlapSecond_iff)

lemma fold_count:
  "fold (\<lambda>j n. if skip j then n else if P j then n + 1 else n) js (n0 :: int)
     = n0 + int (length (filter (\<lambda>j. \<not> skip j \<and> P j) js))"
  by (induction js arbitrary: n0) auto

lemma nIndependentOf_count:
  "nIndependentOf indices i
     = int (length (filter (\<lambda>j. i \<noteq> j \<and> set (indices ! i) \<inter> set (indices ! j) = {})
                      [0..<length indices]))"
  unfolding nIndependentOf_def
  using fold_count [of "\<lambda>j. i = j" "\<lambda>j. \<not> overlapFirst (indices ! i) (indices ! j) False"
                      "[0..<length indices]" 0]
  by (simp add: overlapFirst_iff)

lemma nIndependentOf_nonneg: "0 \<le> nIndependentOf indices i"
  by (simp add: nIndependentOf_count)

lemma nIndependentOf_zero_iff:
  "nIndependentOf indices i = 0
     \<longleftrightarrow> (\<forall>j<length indices. i \<noteq> j \<longrightarrow> set (indices ! i) \<inter> set (indices ! j) \<noteq> {})"
  by (auto simp add: nIndependentOf_count filter_empty_conv)

lemma last_sort_zero_iff:
  fixes xs :: "int list"
  assumes "xs \<noteq> []" and "\<forall>x\<in>set xs. 0 \<le> x"
  shows "last (sort xs) = 0 \<longleftrightarrow> (\<forall>x\<in>set xs. x = 0)"
proof -
  have ne: "sort xs \<noteq> []" using assms(1) by (metis length_0_conv length_sort)
  have mem: "last (sort xs) \<in> set xs" using last_in_set [OF ne] by simp
  have ub: "x \<le> last (sort xs)" if "x \<in> set xs" for x
  proof -
    from that have "x \<in> set (sort xs)" by simp
    then obtain i where i: "i < length (sort xs)" "sort xs ! i = x"
      by (metis in_set_conv_nth)
    have "sort xs ! i \<le> sort xs ! (length (sort xs) - 1)"
      using i by (intro sorted_nth_mono) auto
    then show ?thesis using i ne by (simp add: last_conv_nth)
  qed
  show ?thesis
  proof
    assume z: "last (sort xs) = 0"
    show "\<forall>x\<in>set xs. x = 0"
    proof
      fix x assume x: "x \<in> set xs"
      then have "x \<le> 0" using ub z by fastforce
      moreover have "0 \<le> x" using assms(2) x by blast
      ultimately show "x = 0" by simp
    qed
  next
    assume "\<forall>x\<in>set xs. x = 0"
    then show "last (sort xs) = 0" using mem by blast
  qed
qed

text \<open>
  Claim C6. \<^verbatim>\<open>computeNumberOfCandidates\<close> returns the number of candidates when there are
  fewer than two; otherwise it returns 0 when every candidate shares a daughter index with
  every other candidate, and the sentinel 2 when some candidate shares no daughter index
  with some other candidate. Candidates are told apart by their position in the list. The
  four examples of the specification follow: two candidates sharing index 1 give 0, two
  disjoint candidates give 2, a single candidate gives 1 and no candidate gives 0.
\<close>

theorem computeNumberOfCandidates_ternary:
  "computeNumberOfCandidates indices =
     (if length indices < 2 then int (length indices)
      else if (\<forall>i<length indices. \<forall>j<length indices.
                 i \<noteq> j \<longrightarrow> set (indices ! i) \<inter> set (indices ! j) \<noteq> {})
           then 0 else 2)"
proof (cases "length indices < 2")
  case True
  then show ?thesis by (simp add: computeNumberOfCandidates_def)
next
  case False
  let ?xs = "map (nIndependentOf indices) [0..<length indices]"
  have ne: "?xs \<noteq> []" using False by auto
  have nn: "\<forall>x\<in>set ?xs. 0 \<le> x" by (auto simp add: nIndependentOf_nonneg)
  have "last (sort ?xs) = 0 \<longleftrightarrow> (\<forall>x\<in>set ?xs. x = 0)"
    by (rule last_sort_zero_iff [OF ne nn])
  also have "\<dots> \<longleftrightarrow> (\<forall>i<length indices. nIndependentOf indices i = 0)"
    by auto
  also have "\<dots> \<longleftrightarrow> (\<forall>i<length indices. \<forall>j<length indices.
                 i \<noteq> j \<longrightarrow> set (indices ! i) \<inter> set (indices ! j) \<noteq> {})"
    by (simp add: nIndependentOf_zero_iff)
  finally have key: "last (sort ?xs) = 0 \<longleftrightarrow> (\<forall>i<length indices. \<forall>j<length indices.
                 i \<noteq> j \<longrightarrow> set (indices ! i) \<inter> set (indices ! j) \<noteq> {})" .
  have unfold: "computeNumberOfCandidates indices = (if last (sort ?xs) = 0 then 0 else 2)"
    using False by (simp add: computeNumberOfCandidates_def Let_def)
  show ?thesis unfolding unfold key using False by simp
qed


theorem computeNumberOfCandidates_ternary_witness:
  "computeNumberOfCandidates [[1, 2], [1, 3 :: int]] = 0
   \<and> computeNumberOfCandidates [[1, 2], [3, 4 :: int]] = 2
   \<and> computeNumberOfCandidates [[1, 2 :: int]] = 1
   \<and> computeNumberOfCandidates ([] :: int list list) = 0"
proof -
  have a: "computeNumberOfCandidates [[1, 2], [1, 3 :: int]] = 0"
    using computeNumberOfCandidates_ternary [of "[[1, 2], [1, 3 :: int]]"]
    by (simp add: All_less_Suc)
  have b: "computeNumberOfCandidates [[1, 2], [3, 4 :: int]] = 2"
    using computeNumberOfCandidates_ternary [of "[[1, 2], [3, 4 :: int]]"]
    by (simp add: All_less_Suc)
  have c: "computeNumberOfCandidates [[1, 2 :: int]] = 1"
    using computeNumberOfCandidates_ternary [of "[[1, 2 :: int]]"] by simp
  have d: "computeNumberOfCandidates ([] :: int list list) = 0"
    using computeNumberOfCandidates_ternary [of "[] :: int list list"] by simp
  from a b c d show ?thesis by simp
qed

section \<open>Invariant-mass window taggers and QA\<close>

lemma tagged_bits_subset:
  "((if TESTBIT isSelected 0 \<and> c0 then BIT 0 else 0)
      OR (if TESTBIT isSelected 1 \<and> c1 then BIT 1 else 0)) AND isSelected
   = (if TESTBIT isSelected 0 \<and> c0 then BIT 0 else 0)
      OR (if TESTBIT isSelected 1 \<and> c1 then BIT 1 else 0)"
  by (rule bit_eqI) (auto simp add: bit_and_iff bit_or_iff bit_BIT TESTBIT_bit)

lemma fst_isSelectedD0InMassRange:
  "fst (isSelectedD0InMassRange m pdg pTrackPos pTrackNeg ptD isSelected delta activateQA hMassVsPt)
   = (if TESTBIT isSelected 0
         \<and> \<bar>m [pTrackPos, pTrackNeg] [massPi pdg, massK pdg] - massD0 pdg\<bar> < delta
      then BIT 0 else 0)
     OR (if TESTBIT isSelected 1
            \<and> \<bar>m [pTrackPos, pTrackNeg] [massK pdg, massPi pdg] - massD0 pdg\<bar> < delta
         then BIT 1 else 0)"
  by (simp add: isSelectedD0InMassRange_def Let_def split_def)

lemma fst_isSelectedDplusInMassRange:
  "fst (isSelectedDplusInMassRange m pdg p1 p2 p3 ptD delta activateQA hMassVsPt)
   = (if \<bar>m [p1, p2, p3] [massPi pdg, massPi pdg, massK pdg] - massDPlus pdg\<bar> > delta
      then 0 else BIT 0)"
  by (simp add: isSelectedDplusInMassRange_def Let_def)

lemma fst_isSelectedDsInMassRange:
  "fst (isSelectedDsInMassRange m pdg p1 p2 p3 ptD isSelected delta activateQA hMassVsPt)
   = (if TESTBIT isSelected 0
         \<and> \<bar>m [p1, p3, p2] [massK pdg, massK pdg, massPi pdg] - massDs pdg\<bar> < delta
      then BIT 0 else 0)
     OR (if TESTBIT isSelected 1
            \<and> \<bar>m [p1, p3, p2] [massPi pdg, massK pdg, massK pdg] - massDs pdg\<bar> < delta
         then BIT 1 else 0)"
  by (simp add: isSelectedDsInMassRange_def Let_def split_def)

lemma fst_isSelectedLcInMassRange:
  "fst (isSelectedLcInMassRange m pdg p1 p2 p3 ptLc isSelected delta activateQA hMassVsPt)
   = (if TESTBIT isSelected 0
         \<and> \<bar>m [p1, p3, p2] [massProton pdg, massK pdg, massPi pdg] - massLc pdg\<bar> < delta
      then BIT 0 else 0)
     OR (if TESTBIT isSelected 1
            \<and> \<bar>m [p1, p3, p2] [massPi pdg, massK pdg, massProton pdg] - massLc pdg\<bar> < delta
         then BIT 1 else 0)"
  by (simp add: isSelectedLcInMassRange_def Let_def split_def)

lemma fst_isSelectedXicInMassRange:
  "fst (isSelectedXicInMassRange m pdg p1 p2 p3 ptXic isSelected delta activateQA hMassVsPt)
   = (if TESTBIT isSelected 0
         \<and> \<bar>m [p1, p3, p2] [massProton pdg, massK pdg, massPi pdg] - massXic pdg\<bar> < delta
      then BIT 0 else 0)
     OR (if TESTBIT isSelected 1
            \<and> \<bar>m [p1, p3, p2] [massPi pdg, massK pdg, massProton pdg] - massXic pdg\<bar> < delta
         then BIT 1 else 0)"
  by (simp add: isSelectedXicInMassRange_def Let_def split_def)

lemma fst_isSelectedGamma:
  "fst (isSelectedGamma gamma gammaCosinePA activateQA h1 h2 h3 h4 h5)
   = (\<not> \<bar>etaGamma gamma\<bar> > 8 / 10
      \<and> \<not> (v0radius gamma < 0 \<or> v0radius gamma > 180)
      \<and> \<not> (alpha gamma / (95 / 100)) ^ 2 + (qtarm gamma / (5 / 100)) ^ 2 \<ge> 1
      \<and> \<not> \<bar>psipair gamma\<bar> > 1 / 10
      \<and> \<not> gammaCosinePA < 85 / 100)"
  unfolding isSelectedGamma_def Let_def split_def by (simp only: fst_conv if_distrib [of fst] if_bool_eq_conj) auto

lemma sel_isSelectedProton4Femto:
  "map_sum id fst (isSelectedProton4Femto track minPt maxNsigma onlyTOF postCalib hMean hSigma
                     activateQA hTPC hTOF)
   = map_sum id fst (isSelectedProton4Femto track minPt maxNsigma onlyTOF postCalib hMean hSigma
                     0 [] [])"
  unfolding isSelectedProton4Femto_def Let_def
  by (simp split: sum.split)

text \<open>
  Claim C2. For every input bitmask \<^verbatim>\<open>isSelected\<close>, all momenta and every invariant-mass
  function, the bitmask returned by each of \<^verbatim>\<open>isSelectedD0InMassRange\<close>,
  \<^verbatim>\<open>isSelectedDsInMassRange\<close>, \<^verbatim>\<open>isSelectedLcInMassRange\<close> and \<^verbatim>\<open>isSelectedXicInMassRange\<close> is
  a subset of \<^verbatim>\<open>isSelected\<close>: ANDing it with \<^verbatim>\<open>isSelected\<close> leaves it unchanged, so the
  mass-window tagger never sets a hypothesis bit that the preselection did not propose.
\<close>

theorem massRange_subset_of_preselection:
  "fst (isSelectedD0InMassRange m pdg pTrackPos pTrackNeg ptD isSelected delta activateQA hMassVsPt)
     AND isSelected
   = fst (isSelectedD0InMassRange m pdg pTrackPos pTrackNeg ptD isSelected delta activateQA hMassVsPt)
  \<and> fst (isSelectedDsInMassRange m3 pdg p1 p2 p3 ptD isSelected delta activateQA hMassVsPt)
     AND isSelected
   = fst (isSelectedDsInMassRange m3 pdg p1 p2 p3 ptD isSelected delta activateQA hMassVsPt)
  \<and> fst (isSelectedLcInMassRange m3 pdg p1 p2 p3 ptD isSelected delta activateQA hMassVsPt)
     AND isSelected
   = fst (isSelectedLcInMassRange m3 pdg p1 p2 p3 ptD isSelected delta activateQA hMassVsPt)
  \<and> fst (isSelectedXicInMassRange m3 pdg p1 p2 p3 ptD isSelected delta activateQA hMassVsPt)
     AND isSelected
   = fst (isSelectedXicInMassRange m3 pdg p1 p2 p3 ptD isSelected delta activateQA hMassVsPt)"
  unfolding fst_isSelectedD0InMassRange fst_isSelectedDsInMassRange
    fst_isSelectedLcInMassRange fst_isSelectedXicInMassRange
  by (intro conjI tagged_bits_subset)

theorem massRange_subset_of_preselection_witness:
  "fst (isSelectedD0InMassRange massAt187 pdgRounded [1, 0, 2] [-1, 0, 2] 2 1 (5 / 100) 0 []) = 1
   \<and> fst (isSelectedD0InMassRange massAt187 pdgRounded [1, 0, 2] [-1, 0, 2] 2 3 (5 / 100) 0 []) = 3
   \<and> fst (isSelectedD0InMassRange massAt187 pdgRounded [1, 0, 2] [-1, 0, 2] 2 1 (5 / 100) 0 [])
        AND 1
      = fst (isSelectedD0InMassRange massAt187 pdgRounded [1, 0, 2] [-1, 0, 2] 2 1 (5 / 100) 0 [])"
proof -
  have t: "TESTBIT 1 0" "\<not> TESTBIT 1 (Suc 0)" "TESTBIT 3 0" "TESTBIT 3 (Suc 0)"
    by (simp_all add: TESTBIT_def BIT_def)
  have a: "fst (isSelectedD0InMassRange massAt187 pdgRounded [1, 0, 2] [-1, 0, 2] 2 1 (5 / 100) 0 [])
           = 1"
    by (simp add: isSelectedD0InMassRange_def t massAt187_def pdgRounded_def BIT_def)
  have b: "fst (isSelectedD0InMassRange massAt187 pdgRounded [1, 0, 2] [-1, 0, 2] 2 3 (5 / 100) 0 [])
           = 3"
    by (simp add: isSelectedD0InMassRange_def t massAt187_def pdgRounded_def BIT_def)
  from a b massRange_subset_of_preselection
         [of massAt187 pdgRounded "[1, 0, 2]" "[-1, 0, 2]" 2 1 "5 / 100" 0 "[]"]
  show ?thesis by simp
qed

text \<open>
  Claim C9. Two runs of a selection helper with a QA flag (the five mass-window taggers,
  \<^verbatim>\<open>isSelectedProton4Femto\<close> and \<^verbatim>\<open>isSelectedGamma\<close>) on the same track or candidate inputs,
  differing only in \<^verbatim>\<open>activateQA\<close> and in the QA histograms passed, return the same
  selection result, bitmask or boolean (or the same fatal error): filling QA histograms
  never gates the decision.
\<close>

theorem selection_independent_of_QA:
  "fst (isSelectedD0InMassRange m pdg pTrackPos pTrackNeg ptD isSelected delta activateQA hMassVsPt)
   = fst (isSelectedD0InMassRange m pdg pTrackPos pTrackNeg ptD isSelected delta activateQA' hMassVsPt')
  \<and> fst (isSelectedDplusInMassRange m3 pdg p1 p2 p3 ptD delta activateQA hMassVsPt)
   = fst (isSelectedDplusInMassRange m3 pdg p1 p2 p3 ptD delta activateQA' hMassVsPt')
  \<and> fst (isSelectedDsInMassRange m3 pdg p1 p2 p3 ptD isSelected delta activateQA hMassVsPt)
   = fst (isSelectedDsInMassRange m3 pdg p1 p2 p3 ptD isSelected delta activateQA' hMassVsPt')
  \<and> fst (isSelectedLcInMassRange m3 pdg p1 p2 p3 ptD isSelected delta activateQA hMassVsPt)
   = fst (isSelectedLcInMassRange m3 pdg p1 p2 p3 ptD isSelected delta activateQA' hMassVsPt')
  \<and> fst (isSelectedXicInMassRange m3 pdg p1 p2 p3 ptD isSelected delta activateQA hMassVsPt)
   = fst (isSelectedXicInMassRange m3 pdg p1 p2 p3 ptD isSelected delta activateQA' hMassVsPt')
  \<and> map_sum id fst (isSelectedProton4Femto track femtoMinProtonPt femtoMaxNsigmaProton
        femtoProtonOnlyTOF computeTPCPostCalib hMapProtonMean hMapProtonSigma
        activateQA hProtonTPCPID hProtonTOFPID)
   = map_sum id fst (isSelectedProton4Femto track femtoMinProtonPt femtoMaxNsigmaProton
        femtoProtonOnlyTOF computeTPCPostCalib hMapProtonMean hMapProtonSigma
        activateQA' hProtonTPCPID' hProtonTOFPID')
  \<and> fst (isSelectedGamma gamma gammaCosinePA activateQA hGammaSelected hGammaEtaBefore
        hGammaEtaAfter hGammaArmPodBefore hGammaArmPodAfter)
   = fst (isSelectedGamma gamma gammaCosinePA activateQA' hGammaSelected' hGammaEtaBefore'
        hGammaEtaAfter' hGammaArmPodBefore' hGammaArmPodAfter')"
  unfolding fst_isSelectedD0InMassRange fst_isSelectedDplusInMassRange fst_isSelectedDsInMassRange
    fst_isSelectedLcInMassRange fst_isSelectedXicInMassRange fst_isSelectedGamma
  using sel_isSelectedProton4Femto [of track femtoMinProtonPt femtoMaxNsigmaProton
          femtoProtonOnlyTOF computeTPCPostCalib hMapProtonMean hMapProtonSigma
          activateQA hProtonTPCPID hProtonTOFPID]
        sel_isSelectedProton4Femto [of track femtoMinProtonPt femtoMaxNsigmaProton
          femtoProtonOnlyTOF computeTPCPostCalib hMapProtonMean hMapProtonSigma
          activateQA' hProtonTPCPID' hProtonTOFPID']
  by simp


theorem selection_independent_of_QA_witness:
  "fst (isSelectedD0InMassRange massAt187 pdgRounded [1, 0, 2] [-1, 0, 2] 2 3 (5 / 100) 0 [])
   = fst (isSelectedD0InMassRange massAt187 pdgRounded [1, 0, 2] [-1, 0, 2] 2 3 (5 / 100) 1 [])
   \<and> snd (isSelectedD0InMassRange massAt187 pdgRounded [1, 0, 2] [-1, 0, 2] 2 3 (5 / 100) 0 [])
   \<noteq> snd (isSelectedD0InMassRange massAt187 pdgRounded [1, 0, 2] [-1, 0, 2] 2 3 (5 / 100) 1 [])
   \<and> fst (isSelectedGamma centralGamma (9 / 10) 0 [] [] [] [] [])
   = fst (isSelectedGamma centralGamma (9 / 10) 2 [] [] [] [] [])
   \<and> isSelectedGamma centralGamma (9 / 10) 0 [] [] [] [] [] = (True, [], [], [], [], [])
   \<and> isSelectedGamma centralGamma (9 / 10) 2 [] [] [] [] []
      = (True, [0, 6], [1 / 10], [1 / 10], [(1 / 10, 1 / 100)], [(1 / 10, 1 / 100)])"
proof -
  have t: "TESTBIT 3 0" "TESTBIT 3 (Suc 0)"
    by (simp_all add: TESTBIT_def BIT_def)
  have h: "snd (isSelectedD0InMassRange massAt187 pdgRounded [1, 0, 2] [-1, 0, 2] 2 3 (5 / 100) 0 [])
           \<noteq> snd (isSelectedD0InMassRange massAt187 pdgRounded [1, 0, 2] [-1, 0, 2] 2 3 (5 / 100) 1 [])"
    by (simp add: isSelectedD0InMassRange_def Let_def t massAt187_def pdgRounded_def Fill2_def)
  have g0: "isSelectedGamma centralGamma (9 / 10) 0 [] [] [] [] [] = (True, [], [], [], [], [])"
    by (simp add: isSelectedGamma_def centralGamma_def power2_eq_square)
  have g2: "isSelectedGamma centralGamma (9 / 10) 2 [] [] [] [] []
      = (True, [0, 6], [1 / 10], [1 / 10], [(1 / 10, 1 / 100)], [(1 / 10, 1 / 100)])"
    by (simp add: isSelectedGamma_def centralGamma_def power2_eq_square Fill1_def Fill2_def)
  from selection_independent_of_QA
         [of massAt187 pdgRounded "[1, 0, 2]" "[-1, 0, 2]" 2 3 "5 / 100" 0 "[]" 1 "[]",
          THEN conjunct1]
  have d: "fst (isSelectedD0InMassRange massAt187 pdgRounded [1, 0, 2] [-1, 0, 2] 2 3 (5 / 100) 0 [])
   = fst (isSelectedD0InMassRange massAt187 pdgRounded [1, 0, 2] [-1, 0, 2] 2 3 (5 / 100) 1 [])" .
  from h g0 g2 d show ?thesis by simp
qed

section \<open>Dalitz electron pairing\<close>

lemma bit_shift1: "bit (2 ^ i :: uint8_t) b \<longleftrightarrow> b = i \<and> i < 8"
  by (auto simp add: bit_exp_iff possible_bit_word)

lemma and_shift1_zero: "w AND 2 ^ i = 0 \<longleftrightarrow> \<not> bit w i" for w :: uint8_t
  using TESTBIT_bit [of w i] by (auto simp add: TESTBIT_def BIT_def)

lemma trackCutLoop_bit:
  "bit (trackCutLoop cuts i vals filterMap) b
     \<Longrightarrow> bit filterMap b \<or> (b < 8 \<and> i \<le> b \<and> b - i < length cuts \<and> (cuts ! (b - i)) vals)"
proof (induction cuts arbitrary: i filterMap)
  case Nil
  then show ?case by simp
next
  case (Cons c cuts)
  let ?fm = "if c vals then filterMap OR push_bit i 1 else filterMap"
  from Cons.prems have "bit (trackCutLoop cuts (i + 1) vals ?fm) b" by simp
  from Cons.IH [OF this] consider
    (old) "bit ?fm b"
    | (new) "b < 8" "i + 1 \<le> b" "b - (i + 1) < length cuts" "(cuts ! (b - (i + 1))) vals"
    by blast
  then show ?case
  proof cases
    case old
    then show ?thesis
      by (auto simp add: bit_or_iff bit_shift1 split: if_splits)
  next
    case new
    then have "(c # cuts) ! (b - i) = cuts ! (b - (i + 1))"
      by (simp add: nth_Cons')
    with new show ?thesis by auto
  qed
qed

lemma trackCutLoop_bit0:
  assumes "bit (trackCutLoop cuts 0 vals 0) b"
  shows "b < 8 \<and> b < length cuts \<and> (cuts ! b) vals"
  using trackCutLoop_bit [OF assms] by simp

lemma trackSelectionStep_Dalitzmap [simp]:
  "fDalitzmap (trackSelectionStep cfg track st) = fDalitzmap st"
  by (simp add: trackSelectionStep_def Let_def)

lemma trackSelectionStep_bit:
  assumes "bit (fTrackmap (trackSelectionStep cfg track st) g) b"
  shows "bit (fTrackmap st g) b
       \<or> (g = globalIndex track
          \<and> (\<exists>vals. bit (trackCutLoop (fTrackCuts cfg) 0 (FillTrack cfg track vals) 0) b))"
  using assms
  by (auto simp add: trackSelectionStep_def Let_def split: if_splits)

lemma runTrackSelection_Dalitzmap [simp]:
  "fDalitzmap (runTrackSelection cfg tracks st) = fDalitzmap st"
  unfolding runTrackSelection_def
  by (induction tracks arbitrary: st) simp_all

lemma runTrackSelection_bit:
  assumes "bit (fTrackmap (runTrackSelection cfg tracks st) g) b"
  shows "bit (fTrackmap st g) b
       \<or> (\<exists>track\<in>set tracks. g = globalIndex track
            \<and> (\<exists>vals. bit (trackCutLoop (fTrackCuts cfg) 0 (FillTrack cfg track vals) 0) b))"
  using assms unfolding runTrackSelection_def
proof (induction tracks arbitrary: st)
  case Nil
  then show ?case by simp
next
  case (Cons t tracks)
  from Cons.prems
  have "bit (fTrackmap (fold (trackSelectionStep cfg) tracks (trackSelectionStep cfg t st)) g) b"
    by simp
  from Cons.IH [OF this] show ?case
    using trackSelectionStep_bit [of cfg t st g b] by auto
qed


lemma pairCutLoop_unchanged [simp]:
  "fTrackmap (pairCutLoop cfg track1 track2 two cuts icut st) = fTrackmap st"
  "fgValues (pairCutLoop cfg track1 track2 two cuts icut st) = fgValues st"
  by (induction cuts arbitrary: icut st) (simp_all add: Let_def)

lemma pairCutLoop_bit:
  "bit (fDalitzmap (pairCutLoop cfg track1 track2 two cuts icut st) g) b
     \<Longrightarrow> bit (fDalitzmap st g) b
       \<or> ((g = globalIndex track1 \<or> g = globalIndex track2) \<and> bit two b \<and> b < 8
          \<and> icut \<le> b \<and> b - icut < length cuts \<and> (cuts ! (b - icut)) (fgValues st))"
proof (induction cuts arbitrary: icut st)
  case Nil
  then show ?case by simp
next
  case (Cons c cuts)
  define st' where "st' =
       (if two AND push_bit icut 1 = 0 then st
        else if c (fgValues st) then
          let st = st\<lparr>fDalitzmap := (fDalitzmap st)
                      (globalIndex track1 := fDalitzmap st (globalIndex track1) OR push_bit icut 1)\<rparr>;
              st = st\<lparr>fDalitzmap := (fDalitzmap st)
                      (globalIndex track2 := fDalitzmap st (globalIndex track2) OR push_bit icut 1)\<rparr>
          in if fQA cfg then st\<lparr>fHistMan := fHistMan st @ [(PairClass icut, fgValues st)]\<rparr>
             else st
        else st)"
  have vals: "fgValues st' = fgValues st"
    by (simp add: st'_def Let_def)
  have step: "bit (fDalitzmap st' g) b
      \<Longrightarrow> bit (fDalitzmap st g) b
        \<or> ((g = globalIndex track1 \<or> g = globalIndex track2) \<and> bit two b \<and> b < 8
            \<and> b = icut \<and> c (fgValues st))"
    by (auto simp add: st'_def Let_def bit_or_iff bit_shift1 and_shift1_zero split: if_splits)
  from Cons.prems
  have "bit (fDalitzmap (pairCutLoop cfg track1 track2 two cuts (icut + 1) st') g) b"
    by (simp add: st'_def)
  from Cons.IH [OF this] consider
    (old) "bit (fDalitzmap st' g) b"
    | (new) "g = globalIndex track1 \<or> g = globalIndex track2" "bit two b" "b < 8"
        "icut + 1 \<le> b" "b - (icut + 1) < length cuts" "(cuts ! (b - (icut + 1))) (fgValues st')"
    by blast
  then show ?case
  proof cases
    case old
    from step [OF old] show ?thesis by auto
  next
    case new
    then have "(c # cuts) ! (b - icut) = cuts ! (b - (icut + 1))"
      by (simp add: nth_Cons')
    with new vals show ?thesis by auto
  qed
qed

lemma pairStep_Trackmap [simp]: "fTrackmap (pairStep cfg pair st) = fTrackmap st"
  by (simp add: pairStep_def Let_def)

lemma pairStep_same_sign:
  "sign track1 * sign track2 > 0 \<Longrightarrow> pairStep cfg (track1, track2) st = st"
  by (simp add: pairStep_def)

lemma pairStep_bit:
  assumes "bit (fDalitzmap (pairStep cfg (track1, track2) st) g) b"
  shows "bit (fDalitzmap st g) b
       \<or> ((g = globalIndex track1 \<or> g = globalIndex track2)
          \<and> \<not> sign track1 * sign track2 > 0
          \<and> bit (fTrackmap st (globalIndex track1)) b
          \<and> bit (fTrackmap st (globalIndex track2)) b
          \<and> b < 8 \<and> b < length (fPairCuts cfg)
          \<and> (\<exists>vals. (fPairCuts cfg ! b) (FillPair cfg track1 track2 vals)))"
proof (cases "sign track1 * sign track2 > 0
              \<or> fTrackmap st (globalIndex track1) AND fTrackmap st (globalIndex track2) = 0")
  case True
  then have "pairStep cfg (track1, track2) st = st"
    unfolding pairStep_def Let_def by auto
  with assms show ?thesis by simp
next
  case False
  let ?two = "fTrackmap st (globalIndex track1) AND fTrackmap st (globalIndex track2)"
  let ?st = "st\<lparr>fgValues := FillPair cfg track1 track2 (fgValues st)\<rparr>"
  from False have "pairStep cfg (track1, track2) st
                     = pairCutLoop cfg track1 track2 ?two (fPairCuts cfg) 0 ?st"
    unfolding pairStep_def Let_def by auto
  with assms
  have "bit (fDalitzmap (pairCutLoop cfg track1 track2 ?two (fPairCuts cfg) 0 ?st) g) b"
    by simp
  from pairCutLoop_bit [OF this] False show ?thesis
    by (auto simp add: bit_and_iff)
qed

lemma fold_pairStep_Trackmap [simp]:
  "fTrackmap (fold (pairStep cfg) pairs st) = fTrackmap st"
  by (induction pairs arbitrary: st) simp_all

lemma fold_pairStep_bit:
  assumes "bit (fDalitzmap (fold (pairStep cfg) pairs st) g) b"
  shows "bit (fDalitzmap st g) b
       \<or> (\<exists>(track1, track2)\<in>set pairs.
            (g = globalIndex track1 \<or> g = globalIndex track2)
          \<and> \<not> sign track1 * sign track2 > 0
          \<and> bit (fTrackmap st (globalIndex track1)) b
          \<and> bit (fTrackmap st (globalIndex track2)) b
          \<and> b < 8 \<and> b < length (fPairCuts cfg)
          \<and> (\<exists>vals. (fPairCuts cfg ! b) (FillPair cfg track1 track2 vals)))"
  using assms
proof (induction pairs arbitrary: st)
  case Nil
  then show ?case by simp
next
  case (Cons p pairs)
  obtain track1 track2 where p: "p = (track1, track2)" by (cases p)
  from Cons.prems
  have "bit (fDalitzmap (fold (pairStep cfg) pairs (pairStep cfg p st)) g) b" by simp
  from Cons.IH [OF this] show ?case
    using pairStep_bit [of cfg track1 track2 st g b] unfolding p
    by (simp; blast)
qed

lemma qaCutLoop_maps [simp]:
  "fDalitzmap (qaCutLoop filterMap cuts icut st) = fDalitzmap st"
  "fTrackmap (qaCutLoop filterMap cuts icut st) = fTrackmap st"
  by (induction cuts arbitrary: icut st) simp_all

lemma qaTrackStep_maps [simp]:
  "fDalitzmap (qaTrackStep cfg track st) = fDalitzmap st"
  "fTrackmap (qaTrackStep cfg track st) = fTrackmap st"
  by (simp_all add: qaTrackStep_def Let_def)

lemma fold_qaTrackStep_maps [simp]:
  "fDalitzmap (fold (qaTrackStep cfg) tracks st) = fDalitzmap st"
  "fTrackmap (fold (qaTrackStep cfg) tracks st) = fTrackmap st"
  by (induction tracks arbitrary: st) simp_all

lemma combinationsStrictlyUpper_subset:
  "(x, y) \<in> set (combinationsStrictlyUpper xs) \<Longrightarrow> x \<in> set xs \<and> y \<in> set xs"
  by (induction xs) auto

lemma runDalitzPairing_bit:
  assumes "bit (fDalitzmap (runDalitzPairing cfg tracks st) g) b"
  shows "bit (fDalitzmap st g) b
       \<or> (\<exists>track1\<in>set tracks. \<exists>track2\<in>set tracks.
            (g = globalIndex track1 \<or> g = globalIndex track2)
          \<and> \<not> sign track1 * sign track2 > 0
          \<and> bit (fTrackmap st (globalIndex track1)) b
          \<and> bit (fTrackmap st (globalIndex track2)) b
          \<and> b < 8 \<and> b < length (fPairCuts cfg)
          \<and> (\<exists>vals. (fPairCuts cfg ! b) (FillPair cfg track1 track2 vals)))"
proof -
  from assms
  have "bit (fDalitzmap (fold (pairStep cfg) (combinationsStrictlyUpper tracks) st) g) b"
    by (simp add: runDalitzPairing_def Let_def split: if_splits)
  from fold_pairStep_bit [OF this] show ?thesis
    using combinationsStrictlyUpper_subset [of _ _ tracks] by blast
qed


lemma collisionStep_bit:
  assumes d: "distinct (map globalIndex filteredTracks)"
    and b: "bit (fDalitzmap (collisionStep cfg filteredTracks collision st) g) b"
  shows "bit (fDalitzmap st g) b
       \<or> (\<exists>track1\<in>set filteredTracks. \<exists>track2\<in>set filteredTracks.
            collisionId track1 = collisionId track2
          \<and> (g = globalIndex track1 \<or> g = globalIndex track2)
          \<and> \<not> sign track1 * sign track2 > 0
          \<and> (\<exists>vals. bit (trackCutLoop (fTrackCuts cfg) 0 (FillTrack cfg track1 vals) 0) b)
          \<and> (\<exists>vals. bit (trackCutLoop (fTrackCuts cfg) 0 (FillTrack cfg track2 vals) 0) b)
          \<and> b < length (fPairCuts cfg)
          \<and> (\<exists>vals. (fPairCuts cfg ! b) (FillPair cfg track1 track2 vals)))"
proof -
  define st0 where "st0 = st\<lparr>fTrackmap := (\<lambda>_. 0),
      fgValues := FillEvent cfg collision (ResetValues cfg (fgValues st))\<rparr>"
  define grouped where
    "grouped = filter (\<lambda>track. collisionId track = collisionGlobalIndex collision) filteredTracks"
  define st1 where "st1 = runTrackSelection cfg grouped st0"
  have step: "collisionStep cfg filteredTracks collision st
      = (if fEventCut cfg (fgValues st0) then runDalitzPairing cfg grouped st1 else st0)"
    by (simp add: collisionStep_def Let_def st0_def st1_def grouped_def)
  have D0: "fDalitzmap st0 = fDalitzmap st" by (simp add: st0_def)
  have D1: "fDalitzmap st1 = fDalitzmap st" by (simp add: st1_def D0)
  have inj: "inj_on globalIndex (set filteredTracks)"
    using d by (simp add: distinct_map)
  have sub: "set grouped \<subseteq> set filteredTracks" by (auto simp add: grouped_def)
  have coll: "collisionId track = collisionGlobalIndex collision" if "track \<in> set grouped" for track
    using that by (simp add: grouped_def)
  have own: "\<exists>vals. bit (trackCutLoop (fTrackCuts cfg) 0 (FillTrack cfg track vals) 0) b"
    if t: "track \<in> set grouped" and m: "bit (fTrackmap st1 (globalIndex track)) b" for track
  proof -
    from m have "bit (fTrackmap (runTrackSelection cfg grouped st0) (globalIndex track)) b"
      by (simp add: st1_def)
    from runTrackSelection_bit [OF this]
    obtain track' where t': "track' \<in> set grouped" "globalIndex track = globalIndex track'"
      "\<exists>vals. bit (trackCutLoop (fTrackCuts cfg) 0 (FillTrack cfg track' vals) 0) b"
      by (auto simp add: st0_def)
    from t t' sub inj have "track' = track"
      by (metis inj_onD subsetD)
    with t' show ?thesis by simp
  qed
  show ?thesis
  proof (cases "fEventCut cfg (fgValues st0)")
    case False
    with b step D0 show ?thesis by simp
  next
    case True
    with b step have "bit (fDalitzmap (runDalitzPairing cfg grouped st1) g) b" by simp
    from runDalitzPairing_bit [OF this] show ?thesis
    proof
      assume "bit (fDalitzmap st1 g) b"
      then show ?thesis by (simp add: D1)
    next
      assume "\<exists>track1\<in>set grouped. \<exists>track2\<in>set grouped.
            (g = globalIndex track1 \<or> g = globalIndex track2)
          \<and> \<not> sign track1 * sign track2 > 0
          \<and> bit (fTrackmap st1 (globalIndex track1)) b
          \<and> bit (fTrackmap st1 (globalIndex track2)) b
          \<and> b < 8 \<and> b < length (fPairCuts cfg)
          \<and> (\<exists>vals. (fPairCuts cfg ! b) (FillPair cfg track1 track2 vals))"
      then obtain track1 track2 where
        g: "track1 \<in> set grouped" "track2 \<in> set grouped"
        and r: "g = globalIndex track1 \<or> g = globalIndex track2"
          "\<not> sign track1 * sign track2 > 0"
          "b < length (fPairCuts cfg)"
          "\<exists>vals. (fPairCuts cfg ! b) (FillPair cfg track1 track2 vals)"
        and m: "bit (fTrackmap st1 (globalIndex track1)) b"
          "bit (fTrackmap st1 (globalIndex track2)) b"
        by blast
      have "collisionId track1 = collisionId track2"
        using coll [OF g(1)] coll [OF g(2)] by simp
      moreover have "track1 \<in> set filteredTracks" "track2 \<in> set filteredTracks"
        using g sub by auto
      ultimately show ?thesis
        using r own [OF g(1) m(1)] own [OF g(2) m(2)] by blast
    qed
  qed
qed

lemma fold_collisionStep_bit:
  assumes d: "distinct (map globalIndex filteredTracks)"
    and b: "bit (fDalitzmap (fold (collisionStep cfg filteredTracks) collisions st) g) b"
  shows "bit (fDalitzmap st g) b
       \<or> (\<exists>track1\<in>set filteredTracks. \<exists>track2\<in>set filteredTracks.
            collisionId track1 = collisionId track2
          \<and> (g = globalIndex track1 \<or> g = globalIndex track2)
          \<and> \<not> sign track1 * sign track2 > 0
          \<and> (\<exists>vals. bit (trackCutLoop (fTrackCuts cfg) 0 (FillTrack cfg track1 vals) 0) b)
          \<and> (\<exists>vals. bit (trackCutLoop (fTrackCuts cfg) 0 (FillTrack cfg track2 vals) 0) b)
          \<and> b < length (fPairCuts cfg)
          \<and> (\<exists>vals. (fPairCuts cfg ! b) (FillPair cfg track1 track2 vals)))"
  using b
proof (induction collisions arbitrary: st)
  case Nil
  then show ?case by simp
next
  case (Cons c collisions)
  from Cons.prems
  have "bit (fDalitzmap (fold (collisionStep cfg filteredTracks) collisions
                (collisionStep cfg filteredTracks c st)) g) b"
    by simp
  from Cons.IH [OF this] show ?case
    using collisionStep_bit [OF d, of cfg c st g b] by blast
qed

lemma runDalitzPairing_Trackmap [simp]:
  "fTrackmap (runDalitzPairing cfg tracks st) = fTrackmap st"
  by (simp add: runDalitzPairing_def Let_def)

lemma runDalitzPairing_subset:
  assumes "bit (fDalitzmap (runDalitzPairing cfg tracks st) g) b"
  shows "bit (fDalitzmap st g) b \<or> bit (fTrackmap st g) b"
  using runDalitzPairing_bit [OF assms] by blast

lemma collisionStep_subset:
  assumes "bit (fDalitzmap (collisionStep cfg filteredTracks collision st) g) b"
  shows "bit (fDalitzmap st g) b
       \<or> bit (fTrackmap (collisionStep cfg filteredTracks collision st) g) b"
proof -
  define st0 where "st0 = st\<lparr>fTrackmap := (\<lambda>_. 0),
      fgValues := FillEvent cfg collision (ResetValues cfg (fgValues st))\<rparr>"
  define grouped where
    "grouped = filter (\<lambda>track. collisionId track = collisionGlobalIndex collision) filteredTracks"
  define st1 where "st1 = runTrackSelection cfg grouped st0"
  have step: "collisionStep cfg filteredTracks collision st
      = (if fEventCut cfg (fgValues st0) then runDalitzPairing cfg grouped st1 else st0)"
    by (simp add: collisionStep_def Let_def st0_def st1_def grouped_def)
  have D1: "fDalitzmap st1 = fDalitzmap st" by (simp add: st1_def st0_def)
  show ?thesis
  proof (cases "fEventCut cfg (fgValues st0)")
    case False
    with assms step show ?thesis by (simp add: st0_def)
  next
    case True
    with assms step have "bit (fDalitzmap (runDalitzPairing cfg grouped st1) g) b" by simp
    from runDalitzPairing_subset [OF this] True step D1 show ?thesis by auto
  qed
qed

text \<open>
  Claim C10. A pair of tracks of the same sign leaves the state of the task untouched, so
  it sets no Dalitz bit. When the rows of the filtered table have distinct global indices
  and bit \<open>i\<close> is set in the Dalitz entry written for a track, then the filtered table holds
  that track (the row with its global index) and a partner of the same collision such that
  the two are not of the same sign (of opposite sign, signs being \<open>+1\<close> or \<open>-1\<close>), bit \<open>i\<close> is
  set in the track-cut filter map computed for the track and in the one computed for the
  partner, and pair cut \<open>i\<close> accepted the pair variables filled from the two. The filter
  map of a track is \<^verbatim>\<open>trackCutLoop\<close> on the variables filled from the track; the cuts are
  evaluated on the contents of the variable manager at that moment. Finally the set bits
  of a Dalitz entry are set bits of the track-cut filter map: every bit that the
  processing of a collision adds to \<^verbatim>\<open>fDalitzmap\<close> at an index is set in \<^verbatim>\<open>fTrackmap\<close> at that
  index, as the collision leaves it.
\<close>

theorem dalitz_bit_needs_selected_opposite_sign_pair:
  "(sign track1 * sign track2 > 0 \<longrightarrow> pairStep cfg (track1, track2) st = st)
   \<and> (distinct (map globalIndex filteredTracks) \<and> k < length tracks
      \<and> bit (fst (processFullTracks cfg collisions filteredTracks tracks st) ! k) i
      \<longrightarrow> (\<exists>track\<in>set filteredTracks. \<exists>partner\<in>set filteredTracks.
              globalIndex track = globalIndex (tracks ! k)
            \<and> collisionId partner = collisionId track
            \<and> \<not> sign track * sign partner > 0
            \<and> (\<bar>sign track\<bar> = 1 \<and> \<bar>sign partner\<bar> = 1 \<longrightarrow> sign partner = - sign track)
            \<and> (\<exists>vals. bit (trackCutLoop (fTrackCuts cfg) 0 (FillTrack cfg track vals) 0) i)
            \<and> (\<exists>vals. bit (trackCutLoop (fTrackCuts cfg) 0 (FillTrack cfg partner vals) 0) i)
            \<and> i < length (fPairCuts cfg)
            \<and> (\<exists>vals. (fPairCuts cfg ! i) (FillPair cfg track partner vals)
                    \<or> (fPairCuts cfg ! i) (FillPair cfg partner track vals))))
   \<and> (bit (fDalitzmap (collisionStep cfg filteredTracks collision st) g) i
      \<longrightarrow> bit (fDalitzmap st g) i
        \<or> bit (fTrackmap (collisionStep cfg filteredTracks collision st) g) i)"
proof (intro conjI impI)
  assume "sign track1 * sign track2 > 0"
  then show "pairStep cfg (track1, track2) st = st" by (rule pairStep_same_sign)
next
  assume "bit (fDalitzmap (collisionStep cfg filteredTracks collision st) g) i"
  then show "bit (fDalitzmap st g) i
        \<or> bit (fTrackmap (collisionStep cfg filteredTracks collision st) g) i"
    by (rule collisionStep_subset)
next
  assume a: "distinct (map globalIndex filteredTracks) \<and> k < length tracks
      \<and> bit (fst (processFullTracks cfg collisions filteredTracks tracks st) ! k) i"
  let ?g = "globalIndex (tracks ! k)"
  from a have d: "distinct (map globalIndex filteredTracks)" and k: "k < length tracks"
    and b: "bit (fst (processFullTracks cfg collisions filteredTracks tracks st) ! k) i"
    by simp_all
  from b k have "bit (fDalitzmap (fold (collisionStep cfg filteredTracks) collisions
                      (st\<lparr>fDalitzmap := (\<lambda>_. 0)\<rparr>)) ?g) i"
    by (simp add: processFullTracks_def Let_def)
  from fold_collisionStep_bit [OF d this]
  obtain t1 t2 where t: "t1 \<in> set filteredTracks" "t2 \<in> set filteredTracks"
    and c: "collisionId t1 = collisionId t2"
    and g: "?g = globalIndex t1 \<or> ?g = globalIndex t2"
    and s: "\<not> sign t1 * sign t2 > 0"
    and c1: "\<exists>vals. bit (trackCutLoop (fTrackCuts cfg) 0 (FillTrack cfg t1 vals) 0) i"
    and c2: "\<exists>vals. bit (trackCutLoop (fTrackCuts cfg) 0 (FillTrack cfg t2 vals) 0) i"
    and l: "i < length (fPairCuts cfg)"
    and p: "\<exists>vals. (fPairCuts cfg ! i) (FillPair cfg t1 t2 vals)"
    by auto
  have opp: "\<bar>x\<bar> = 1 \<and> \<bar>y\<bar> = 1 \<longrightarrow> y = - x" if "\<not> x * y > 0" for x y :: int
  proof
    assume "\<bar>x\<bar> = 1 \<and> \<bar>y\<bar> = 1"
    then have "(x = 1 \<or> x = -1) \<and> (y = 1 \<or> y = -1)" by auto
    with that show "y = - x" by auto
  qed
  have s': "\<not> sign t2 * sign t1 > 0" using s by (simp add: mult.commute)
  from g show "\<exists>track\<in>set filteredTracks. \<exists>partner\<in>set filteredTracks.
              globalIndex track = globalIndex (tracks ! k)
            \<and> collisionId partner = collisionId track
            \<and> \<not> sign track * sign partner > 0
            \<and> (\<bar>sign track\<bar> = 1 \<and> \<bar>sign partner\<bar> = 1 \<longrightarrow> sign partner = - sign track)
            \<and> (\<exists>vals. bit (trackCutLoop (fTrackCuts cfg) 0 (FillTrack cfg track vals) 0) i)
            \<and> (\<exists>vals. bit (trackCutLoop (fTrackCuts cfg) 0 (FillTrack cfg partner vals) 0) i)
            \<and> i < length (fPairCuts cfg)
            \<and> (\<exists>vals. (fPairCuts cfg ! i) (FillPair cfg track partner vals)
                    \<or> (fPairCuts cfg ! i) (FillPair cfg partner track vals))"
  proof
    assume "?g = globalIndex t1"
    then show ?thesis
      using t c s opp [OF s] c1 c2 l p
      by (intro bexI [of _ t1] bexI [of _ t2]) auto
  next
    assume "?g = globalIndex t2"
    then show ?thesis
      using t c s' opp [OF s'] c1 c2 l p
      by (intro bexI [of _ t2] bexI [of _ t1]) auto
  qed
qed

theorem dalitz_bit_needs_selected_opposite_sign_pair_witness:
  "distinct (map globalIndex dalitzTracksEx) \<and> 0 < length dalitzTracksEx
   \<and> fst (processFullTracks dalitzConfigEx [\<lparr>collisionGlobalIndex = 0\<rparr>]
             dalitzTracksEx dalitzTracksEx dalitzStateEx) = [1, 1, 0]
   \<and> bit (fst (processFullTracks dalitzConfigEx [\<lparr>collisionGlobalIndex = 0\<rparr>]
                  dalitzTracksEx dalitzTracksEx dalitzStateEx) ! 0) 0
   \<and> (\<exists>track\<in>set dalitzTracksEx. \<exists>partner\<in>set dalitzTracksEx.
          globalIndex track = globalIndex (dalitzTracksEx ! 0)
        \<and> collisionId partner = collisionId track
        \<and> \<not> sign track * sign partner > 0
        \<and> (\<bar>sign track\<bar> = 1 \<and> \<bar>sign partner\<bar> = 1 \<longrightarrow> sign partner = - sign track)
        \<and> (\<exists>vals. bit (trackCutLoop (fTrackCuts dalitzConfigEx) 0
                          (FillTrack dalitzConfigEx track vals) 0) 0)
        \<and> (\<exists>vals. bit (trackCutLoop (fTrackCuts dalitzConfigEx) 0
                          (FillTrack dalitzConfigEx partner vals) 0) 0)
        \<and> 0 < length (fPairCuts dalitzConfigEx)
        \<and> (\<exists>vals. (fPairCuts dalitzConfigEx ! 0) (FillPair dalitzConfigEx track partner vals)
                \<or> (fPairCuts dalitzConfigEx ! 0) (FillPair dalitzConfigEx partner track vals)))
   \<and> sign (dalitzTracksEx ! 0) * sign (dalitzTracksEx ! 2) > 0
   \<and> pairStep dalitzConfigEx (dalitzTracksEx ! 0, dalitzTracksEx ! 2) dalitzStateEx
       = dalitzStateEx
   \<and> bit (fDalitzmap (collisionStep dalitzConfigEx dalitzTracksEx
                          \<lparr>collisionGlobalIndex = 0\<rparr> dalitzStateEx) 1) 0
   \<and> \<not> bit (fDalitzmap dalitzStateEx 1) 0
   \<and> bit (fTrackmap (collisionStep dalitzConfigEx dalitzTracksEx
                          \<lparr>collisionGlobalIndex = 0\<rparr> dalitzStateEx) 1) 0"
proof -
  have cd: "bit (fDalitzmap (collisionStep dalitzConfigEx dalitzTracksEx
                          \<lparr>collisionGlobalIndex = 0\<rparr> dalitzStateEx) 1) 0"
    by (simp add: collisionStep_def runTrackSelection_def
        runDalitzPairing_def trackSelectionStep_def pairStep_def qaTrackStep_def
        dalitzConfigEx_def dalitzTracksEx_def dalitzStateEx_def Let_def)
  have c0: "\<not> bit (fDalitzmap dalitzStateEx 1) 0"
    by (simp add: dalitzStateEx_def)
  have d: "distinct (map globalIndex dalitzTracksEx)" and l: "0 < length dalitzTracksEx"
    by (simp_all add: dalitzTracksEx_def)
  have out: "fst (processFullTracks dalitzConfigEx [\<lparr>collisionGlobalIndex = 0\<rparr>]
             dalitzTracksEx dalitzTracksEx dalitzStateEx) = [1, 1, 0]"
    by (simp add: processFullTracks_def collisionStep_def runTrackSelection_def
        runDalitzPairing_def trackSelectionStep_def pairStep_def qaTrackStep_def
        dalitzConfigEx_def dalitzTracksEx_def dalitzStateEx_def Let_def)
  then have b: "bit (fst (processFullTracks dalitzConfigEx [\<lparr>collisionGlobalIndex = 0\<rparr>]
                  dalitzTracksEx dalitzTracksEx dalitzStateEx) ! 0) 0"
    by simp
  have s: "sign (dalitzTracksEx ! 0) * sign (dalitzTracksEx ! 2) > 0"
    by (simp add: dalitzTracksEx_def)
  note inst = dalitz_bit_needs_selected_opposite_sign_pair
      [of "dalitzTracksEx ! 0" "dalitzTracksEx ! 2" dalitzConfigEx dalitzStateEx
          dalitzTracksEx 0 dalitzTracksEx "[\<lparr>collisionGlobalIndex = 0\<rparr>]" 0
          "\<lparr>collisionGlobalIndex = 0\<rparr>" 1]
  from inst s have same: "pairStep dalitzConfigEx (dalitzTracksEx ! 0, dalitzTracksEx ! 2)
      dalitzStateEx = dalitzStateEx"
    by blast
  from inst d l b have ex: "\<exists>track\<in>set dalitzTracksEx. \<exists>partner\<in>set dalitzTracksEx.
          globalIndex track = globalIndex (dalitzTracksEx ! 0)
        \<and> collisionId partner = collisionId track
        \<and> \<not> sign track * sign partner > 0
        \<and> (\<bar>sign track\<bar> = 1 \<and> \<bar>sign partner\<bar> = 1 \<longrightarrow> sign partner = - sign track)
        \<and> (\<exists>vals. bit (trackCutLoop (fTrackCuts dalitzConfigEx) 0
                          (FillTrack dalitzConfigEx track vals) 0) 0)
        \<and> (\<exists>vals. bit (trackCutLoop (fTrackCuts dalitzConfigEx) 0
                          (FillTrack dalitzConfigEx partner vals) 0) 0)
        \<and> 0 < length (fPairCuts dalitzConfigEx)
        \<and> (\<exists>vals. (fPairCuts dalitzConfigEx ! 0) (FillPair dalitzConfigEx track partner vals)
                \<or> (fPairCuts dalitzConfigEx ! 0) (FillPair dalitzConfigEx partner track vals))"
    by blast
  from inst cd c0
  have ct: "bit (fTrackmap (collisionStep dalitzConfigEx dalitzTracksEx
                          \<lparr>collisionGlobalIndex = 0\<rparr> dalitzStateEx) 1) 0"
    by blast
  from d l out b ex s same cd c0 ct show ?thesis by blast
qed

section \<open>Femtoscopy kinematics\<close>

lemma dot_rotate3:
  assumes "isRotation R"
  shows "dot (rotate3 R u) (rotate3 R v) = dot u v"
proof -
  obtain a b c where u: "u = (a, b, c)" by (cases u)
  obtain x y z where v: "v = (x, y, z)" by (cases v)
  from assms have
    o: "r11 R * r11 R + r21 R * r21 R + r31 R * r31 R = 1"
       "r12 R * r12 R + r22 R * r22 R + r32 R * r32 R = 1"
       "r13 R * r13 R + r23 R * r23 R + r33 R * r33 R = 1"
       "r11 R * r12 R + r21 R * r22 R + r31 R * r32 R = 0"
       "r11 R * r13 R + r21 R * r23 R + r31 R * r33 R = 0"
       "r12 R * r13 R + r22 R * r23 R + r32 R * r33 R = 0"
    by (simp_all add: isRotation_def)
  have "dot (rotate3 R u) (rotate3 R v)
      = a * x * (r11 R * r11 R + r21 R * r21 R + r31 R * r31 R)
      + b * y * (r12 R * r12 R + r22 R * r22 R + r32 R * r32 R)
      + c * z * (r13 R * r13 R + r23 R * r23 R + r33 R * r33 R)
      + (a * y + b * x) * (r11 R * r12 R + r21 R * r22 R + r31 R * r32 R)
      + (a * z + c * x) * (r11 R * r13 R + r21 R * r23 R + r31 R * r33 R)
      + (b * z + c * y) * (r12 R * r13 R + r22 R * r23 R + r32 R * r33 R)"
    unfolding u v by (simp add: algebra_simps)
  also have "\<dots> = a * x + b * y + c * z"
    unfolding o by simp
  finally show ?thesis by (simp add: u v)
qed

lemma rotate3_vadd: "rotate3 R (vadd u v) = vadd (rotate3 R u) (rotate3 R v)"
  by (cases u; cases v) (simp add: algebra_simps)

lemma rotate3_vsub: "rotate3 R (vsub u v) = vsub (rotate3 R u) (rotate3 R v)"
  by (cases u; cases v) (simp add: algebra_simps)

lemma rotate3_smult: "rotate3 R (smult k u) = smult k (rotate3 R u)"
  by (cases u) (simp add: algebra_simps)

lemma Energy_PxPyPzMVector:
  "Energy (PxPyPzMVector x y z m) = sqrt (dot (x, y, z) (x, y, z) + m * m)"
  "Vect (PxPyPzMVector x y z m) = (x, y, z)"
  by (simp_all add: PxPyPzMVector_def)

text \<open>The four-vector of a rotated momentum: same energy, rotated three-momentum.\<close>

lemma PxPyPzMVector_rotate3:
  assumes "isRotation R" and "rotate3 R (x, y, z) = (x', y', z')"
  shows "PxPyPzMVector x' y' z' m
       = \<lparr>Vect = rotate3 R (Vect (PxPyPzMVector x y z m)),
          Energy = Energy (PxPyPzMVector x y z m)\<rparr>"
proof -
  have "dot (x', y', z') (x', y', z') = dot (x, y, z) (x, y, z)"
    using dot_rotate3 [OF assms(1), of "(x, y, z)" "(x, y, z)"] assms(2) by simp
  then have "x' * x' + y' * y' + z' * z' = x * x + y * y + z * z" by simp
  then show ?thesis
    using assms(2) by (simp add: PxPyPzMVector_def)
qed

lemma lvAdd_rot: "lvAdd (rotLV R v) (rotLV R w) = rotLV R (lvAdd v w)"
  by (simp add: lvAdd_def rotLV_def rotate3_vadd)

lemma lvSub_rot: "lvSub (rotLV R v) (rotLV R w) = rotLV R (lvSub v w)"
  by (simp add: lvSub_def rotLV_def rotate3_vsub)

lemma BoostToCM_rot: "BoostToCM (rotLV R v) = rotate3 R (BoostToCM v)"
  by (simp add: BoostToCM_def rotLV_def rotate3_smult)

lemma Boost_rot:
  assumes "isRotation R"
  shows "Boost (rotate3 R beta) (rotLV R v) = rotLV R (Boost beta v)"
  by (simp add: Boost_def Let_def rotLV_def dot_rotate3 [OF assms] rotate3_vadd rotate3_smult)

lemma magP_rot:
  assumes "isRotation R"
  shows "magP (rotLV R v) = magP v"
  by (simp add: magP_def rotLV_def dot_rotate3 [OF assms])


lemma computeRelativeMomentum_rotated:
  assumes R: "isRotation R"
  shows "computeRelativeMomentum pdg (rotateTrack R track) (rotate3 R CharmCandMomentum) CharmMass
       = computeRelativeMomentum pdg track CharmCandMomentum CharmMass"
proof -
  define part1 where
    "part1 = PxPyPzMVector (px track) (py track) (pz track) (massProton pdg)"
  define part2 where
    "part2 = PxPyPzMVector (fst CharmCandMomentum) (fst (snd CharmCandMomentum))
               (snd (snd CharmCandMomentum)) CharmMass"
  obtain tx ty tz where t: "rotate3 R (px track, py track, pz track) = (tx, ty, tz)"
    by (cases "rotate3 R (px track, py track, pz track)")
  obtain c0 c1 c2 where c: "CharmCandMomentum = (c0, c1, c2)"
    by (cases CharmCandMomentum)
  obtain d0 d1 d2 where d: "rotate3 R (c0, c1, c2) = (d0, d1, d2)"
    by (cases "rotate3 R (c0, c1, c2)")
  have q: "px (rotateTrack R track) = tx" "py (rotateTrack R track) = ty"
    "pz (rotateTrack R track) = tz"
    unfolding rotateTrack_def Let_def t by simp_all
  have r1: "PxPyPzMVector (px (rotateTrack R track)) (py (rotateTrack R track))
              (pz (rotateTrack R track)) (massProton pdg) = rotLV R part1"
    unfolding q part1_def rotLV_def
    by (rule PxPyPzMVector_rotate3 [OF R t])
  have r2: "PxPyPzMVector (fst (rotate3 R CharmCandMomentum))
              (fst (snd (rotate3 R CharmCandMomentum)))
              (snd (snd (rotate3 R CharmCandMomentum))) CharmMass = rotLV R part2"
    unfolding part2_def rotLV_def c d fst_conv snd_conv
    by (rule PxPyPzMVector_rotate3 [OF R d])
  have "computeRelativeMomentum pdg (rotateTrack R track) (rotate3 R CharmCandMomentum) CharmMass
      = (1 / 2) * magP (lvSub (Boost (BoostToCM (lvAdd (rotLV R part1) (rotLV R part2)))
                                 (rotLV R part1))
                              (Boost (BoostToCM (lvAdd (rotLV R part1) (rotLV R part2)))
                                 (rotLV R part2)))"
    unfolding computeRelativeMomentum_def Let_def r1 r2 ..
  also have "\<dots> = (1 / 2) * magP (lvSub (Boost (BoostToCM (lvAdd part1 part2)) part1)
                                       (Boost (BoostToCM (lvAdd part1 part2)) part2))"
    by (simp only: lvAdd_rot BoostToCM_rot Boost_rot [OF R] lvSub_rot magP_rot [OF R])
  also have "\<dots> = computeRelativeMomentum pdg track CharmCandMomentum CharmMass"
    by (simp add: computeRelativeMomentum_def Let_def part1_def part2_def)
  finally show ?thesis .
qed

lemma dot_nonneg: "0 \<le> dot u u"
  by (cases u) simp

lemma cauchy_schwarz3: "dot u v \<le> sqrt (dot u u) * sqrt (dot v v)"
proof -
  obtain a b c where u: "u = (a, b, c)" by (cases u)
  obtain x y z where v: "v = (x, y, z)" by (cases v)
  have "dot u u * dot v v - dot u v * dot u v
      = (a * y - b * x) * (a * y - b * x) + (a * z - c * x) * (a * z - c * x)
        + (b * z - c * y) * (b * z - c * y)"
    unfolding u v by (simp add: algebra_simps)
  also have "\<dots> \<ge> 0" by simp
  finally have "dot u v * dot u v \<le> dot u u * dot v v" by simp
  then have "(dot u v)\<^sup>2 \<le> (sqrt (dot u u) * sqrt (dot v v))\<^sup>2"
    by (simp add: power2_eq_square dot_nonneg algebra_simps)
  moreover have "0 \<le> sqrt (dot u u) * sqrt (dot v v)"
    by (simp add: dot_nonneg)
  ultimately show ?thesis by (rule power2_le_imp_le)
qed


lemma dot_vadd: "dot (vadd u v) (vadd u v) = dot u u + 2 * dot u v + dot v v"
  by (cases u; cases v) (simp add: algebra_simps)

lemma sum_timelike:
  assumes v: "sqrt (dot (Vect v) (Vect v)) < Energy v"
    and w: "sqrt (dot (Vect w) (Vect w)) \<le> Energy w"
  shows "0 < Energy (lvAdd v w)"
    and "dot (Vect (lvAdd v w)) (Vect (lvAdd v w)) < Energy (lvAdd v w) * Energy (lvAdd v w)"
proof -
  let ?a = "sqrt (dot (Vect v) (Vect v))" and ?b = "sqrt (dot (Vect w) (Vect w))"
  have a0: "0 \<le> ?a" and b0: "0 \<le> ?b" by (simp_all add: dot_nonneg)
  have lt: "?a + ?b < Energy v + Energy w" using v w by simp
  have "0 \<le> ?a + ?b" using a0 b0 by (rule add_nonneg_nonneg)
  from this lt have Epos: "0 < Energy v + Energy w" by (rule le_less_trans)
  then show "0 < Energy (lvAdd v w)" by (simp add: lvAdd_def)
  have "dot (Vect (lvAdd v w)) (Vect (lvAdd v w))
      = ?a * ?a + 2 * dot (Vect v) (Vect w) + ?b * ?b"
    by (simp add: lvAdd_def dot_vadd dot_nonneg)
  also have "\<dots> \<le> ?a * ?a + 2 * (?a * ?b) + ?b * ?b"
    using cauchy_schwarz3 [of "Vect v" "Vect w"] by simp
  also have "\<dots> = (?a + ?b) * (?a + ?b)" by (simp add: algebra_simps)
  also have "\<dots> < (Energy v + Energy w) * (Energy v + Energy w)"
    using lt Epos \<open>0 \<le> ?a + ?b\<close> by (intro mult_strict_mono)
  finally show "dot (Vect (lvAdd v w)) (Vect (lvAdd v w))
      < Energy (lvAdd v w) * Energy (lvAdd v w)"
    by (simp add: lvAdd_def)
qed

lemma PxPyPzMVector_causal:
  "sqrt (dot (Vect (PxPyPzMVector x y z m)) (Vect (PxPyPzMVector x y z m)))
     \<le> Energy (PxPyPzMVector x y z m)"
  "m \<noteq> 0 \<Longrightarrow> sqrt (dot (Vect (PxPyPzMVector x y z m)) (Vect (PxPyPzMVector x y z m)))
     < Energy (PxPyPzMVector x y z m)"
  by (auto simp add: PxPyPzMVector_def zero_less_mult_iff)

lemma Boost_lvAdd: "Boost beta (lvAdd v w) = lvAdd (Boost beta v) (Boost beta w)"
proof -
  obtain a b c where v: "Vect v = (a, b, c)" by (cases "Vect v")
  obtain x y z where w: "Vect w = (x, y, z)" by (cases "Vect w")
  obtain p q r where be: "beta = (p, q, r)" by (cases beta)
  show ?thesis
    by (simp add: Boost_def lvAdd_def Let_def v w be algebra_simps)
qed

lemma Boost_to_rest:
  assumes E: "0 < Energy v"
    and tl: "dot (Vect v) (Vect v) < Energy v * Energy v"
  shows "Vect (Boost (BoostToCM v) v) = (0, 0, 0)"
proof -
  obtain x y z where V: "Vect v = (x, y, z)" by (cases "Vect v")
  define e where "e = Energy v"
  define b2 where "b2 = dot (BoostToCM v) (BoostToCM v)"
  define g where "g = 1 / sqrt (1 - b2)"
  have e0: "0 < e" using E by (simp add: e_def)
  have b2: "b2 = (x * x + y * y + z * z) / (e * e)"
    using e0 by (simp add: b2_def BoostToCM_def V e_def field_simps)
  have "x * x + y * y + z * z < e * e" using tl by (simp add: V e_def)
  then have b21: "b2 < 1" using e0 by (simp add: b2 field_simps)
  then have g0: "0 < g" by (simp add: g_def)
  have gg: "g * g * (1 - b2) = 1"
    using b21 by (simp add: g_def field_simps)
  have key: "1 - g + g * g / (1 + g) * b2 = 0"
  proof -
    have "(1 - g + g * g / (1 + g) * b2) * (1 + g) = 1 - g * g * (1 - b2)"
      using g0 by (simp add: field_simps)
    also have "\<dots> = 0" using gg by simp
    finally show ?thesis using g0 by simp
  qed
  have dotbv: "dot (BoostToCM v) (Vect v) = - b2 * e"
    using e0 by (simp add: BoostToCM_def V b2 e_def field_simps)
  have coef: "(g * g / (1 + g) * dot (BoostToCM v) (Vect v) + g * e) * (- 1 / e)
      = - 1"
  proof -
    have "(K * (- b2 * e) + g * e) * (- 1 / e) = K * b2 - g" for K
      using e0 by (simp add: field_simps)
    then have "(g * g / (1 + g) * dot (BoostToCM v) (Vect v) + g * e) * (- 1 / e)
        = g * g / (1 + g) * b2 - g"
      unfolding dotbv .
    also have "\<dots> = - 1" using key by simp
    finally show ?thesis .
  qed
  have "Vect (Boost (BoostToCM v) v)
      = vadd (Vect v) (smult (g * g / (1 + g) * dot (BoostToCM v) (Vect v) + g * e)
                          (BoostToCM v))"
    by (simp add: Boost_def Let_def g_def b2_def e_def)
  also have "smult (g * g / (1 + g) * dot (BoostToCM v) (Vect v) + g * e) (BoostToCM v)
      = smult ((g * g / (1 + g) * dot (BoostToCM v) (Vect v) + g * e) * (- 1 / e)) (Vect v)"
    unfolding BoostToCM_def e_def [symmetric] by (cases "Vect v") simp
  also have "vadd (Vect v) \<dots> = (0, 0, 0)"
    unfolding coef by (simp add: V)
  finally show ?thesis .
qed

lemma computeRelativeMomentum_CM:
  fixes pdg track CharmCandMomentum CharmMass
  defines "part1 \<equiv> PxPyPzMVector (px track) (py track) (pz track) (massProton pdg)"
    and "part2 \<equiv> PxPyPzMVector (fst CharmCandMomentum) (fst (snd CharmCandMomentum))
                    (snd (snd CharmCandMomentum)) CharmMass"
  assumes m: "massProton pdg \<noteq> 0"
  shows "vadd (Vect (Boost (BoostToCM (lvAdd part1 part2)) part1))
              (Vect (Boost (BoostToCM (lvAdd part1 part2)) part2)) = (0, 0, 0)"
proof -
  have c1: "sqrt (dot (Vect part1) (Vect part1)) < Energy part1"
    unfolding part1_def using m by (rule PxPyPzMVector_causal(2))
  have c2: "sqrt (dot (Vect part2) (Vect part2)) \<le> Energy part2"
    unfolding part2_def by (rule PxPyPzMVector_causal(1))
  have "vadd (Vect (Boost (BoostToCM (lvAdd part1 part2)) part1))
             (Vect (Boost (BoostToCM (lvAdd part1 part2)) part2))
      = Vect (Boost (BoostToCM (lvAdd part1 part2)) (lvAdd part1 part2))"
    by (subst Boost_lvAdd) (simp add: lvAdd_def)
  also have "\<dots> = (0, 0, 0)"
    by (rule Boost_to_rest [OF sum_timelike [OF c1 c2]])
  finally show ?thesis .
qed

text \<open>
  Claim C8. For every track momentum, candidate three-momentum and candidate mass, and
  every rotation \<open>R\<close> of space, \<^verbatim>\<open>computeRelativeMomentum\<close> on the rotated inputs (\<open>R\<close> applied
  to the track momentum and to the candidate momentum, the masses unchanged) equals
  \<^verbatim>\<open>computeRelativeMomentum\<close> on the original inputs. The result is half the magnitude of the
  difference of the two three-momenta after the boost by the velocity of the pair, and
  that frame is the centre-of-mass frame of the pair: for a proton mass different from 0
  the two boosted three-momenta add up to zero. The arithmetic is that of the reals.
\<close>

theorem computeRelativeMomentum_rotation_invariant:
  "(isRotation R \<longrightarrow>
      computeRelativeMomentum pdg (rotateTrack R track) (rotate3 R CharmCandMomentum) CharmMass
      = computeRelativeMomentum pdg track CharmCandMomentum CharmMass)
   \<and> (let part1 = PxPyPzMVector (px track) (py track) (pz track) (massProton pdg);
           part2 = PxPyPzMVector (fst CharmCandMomentum) (fst (snd CharmCandMomentum))
                     (snd (snd CharmCandMomentum)) CharmMass;
           beta = BoostToCM (lvAdd part1 part2)
       in computeRelativeMomentum pdg track CharmCandMomentum CharmMass
            = (1 / 2) * magP (lvSub (Boost beta part1) (Boost beta part2))
          \<and> (massProton pdg \<noteq> 0 \<longrightarrow>
               vadd (Vect (Boost beta part1)) (Vect (Boost beta part2)) = (0, 0, 0)))"
  unfolding Let_def
  using computeRelativeMomentum_rotated [of R pdg track CharmCandMomentum CharmMass]
    computeRelativeMomentum_CM [of pdg track CharmCandMomentum CharmMass]
  by (simp add: computeRelativeMomentum_def Let_def)

lemma sqrt_25: "sqrt 25 = 5" and sqrt_36: "sqrt 36 = 6"
  by (rule real_sqrt_unique; simp)+

theorem computeRelativeMomentum_rotation_invariant_witness:
  "isRotation rotZ90
   \<and> rotateTrack rotZ90 (edgeTrack\<lparr>px := 3, py := 0, pz := 0\<rparr>)
       = edgeTrack\<lparr>px := 0, py := 3, pz := 0\<rparr>
   \<and> rotate3 rotZ90 (- 3, 0, 0) = (0, - 3, 0)
   \<and> computeRelativeMomentum (pdgRounded\<lparr>massProton := 4\<rparr>)
         (edgeTrack\<lparr>px := 0, py := 3, pz := 0\<rparr>) (0, - 3, 0) 4
       = computeRelativeMomentum (pdgRounded\<lparr>massProton := 4\<rparr>)
           (edgeTrack\<lparr>px := 3, py := 0, pz := 0\<rparr>) (- 3, 0, 0) 4
   \<and> computeRelativeMomentum (pdgRounded\<lparr>massProton := 4\<rparr>)
         (edgeTrack\<lparr>px := 3, py := 0, pz := 0\<rparr>) (- 3, 0, 0) 4 = 3"
proof -
  have r: "isRotation rotZ90" by (simp add: isRotation_def rotZ90_def)
  have t: "rotateTrack rotZ90 (edgeTrack\<lparr>px := 3, py := 0, pz := 0\<rparr>)
       = edgeTrack\<lparr>px := 0, py := 3, pz := 0\<rparr>"
    by (simp add: rotateTrack_def rotZ90_def edgeTrack_def)
  have c: "rotate3 rotZ90 (- 3, 0, 0) = (0, - 3, 0)"
    by (simp add: rotZ90_def)
  have v: "computeRelativeMomentum (pdgRounded\<lparr>massProton := 4\<rparr>)
         (edgeTrack\<lparr>px := 3, py := 0, pz := 0\<rparr>) (- 3, 0, 0) 4 = 3"
    by (simp add: computeRelativeMomentum_def PxPyPzMVector_def lvAdd_def lvSub_def
          BoostToCM_def Boost_def magP_def Let_def sqrt_25 sqrt_36)
  from computeRelativeMomentum_rotation_invariant
         [of rotZ90 "pdgRounded\<lparr>massProton := 4\<rparr>"
             "edgeTrack\<lparr>px := 3, py := 0, pz := 0\<rparr>" "(- 3, 0, 0)" 4, THEN conjunct1]
       r
  have "computeRelativeMomentum (pdgRounded\<lparr>massProton := 4\<rparr>)
         (rotateTrack rotZ90 (edgeTrack\<lparr>px := 3, py := 0, pz := 0\<rparr>))
         (rotate3 rotZ90 (- 3, 0, 0)) 4
       = computeRelativeMomentum (pdgRounded\<lparr>massProton := 4\<rparr>)
           (edgeTrack\<lparr>px := 3, py := 0, pz := 0\<rparr>) (- 3, 0, 0) 4"
    by blast
  then have i: "computeRelativeMomentum (pdgRounded\<lparr>massProton := 4\<rparr>)
         (edgeTrack\<lparr>px := 0, py := 3, pz := 0\<rparr>) (0, - 3, 0) 4
       = computeRelativeMomentum (pdgRounded\<lparr>massProton := 4\<rparr>)
           (edgeTrack\<lparr>px := 3, py := 0, pz := 0\<rparr>) (- 3, 0, 0) 4"
    unfolding t c .
  from r t c i v show ?thesis by blast
qed

end
